theory Spec2Isabelle
  imports Complex_Main
begin

section \<open>Vectors, errors and arrays\<close>

text \<open>
  A point or a velocity is a numpy array of three floats. Floats are read as real
  numbers: rounding is outside this development.
\<close>

type_synonym vec3 = "real \<times> real \<times> real"

definition zeros3 :: vec3 where
  "zeros3 = (0, 0, 0)"

fun vadd :: "vec3 \<Rightarrow> vec3 \<Rightarrow> vec3" where
  "vadd (a, b, c) (x, y, z) = (a + x, b + y, c + z)"

fun vsub :: "vec3 \<Rightarrow> vec3 \<Rightarrow> vec3" where
  "vsub (a, b, c) (x, y, z) = (a - x, b - y, c - z)"

fun smul :: "real \<Rightarrow> vec3 \<Rightarrow> vec3" where
  "smul k (x, y, z) = (k * x, k * y, k * z)"

fun cross :: "vec3 \<Rightarrow> vec3 \<Rightarrow> vec3" where
  "cross (a, b, c) (x, y, z) = (b * z - c * y, c * x - a * z, a * y - b * x)"

fun dot :: "vec3 \<Rightarrow> vec3 \<Rightarrow> real" where
  "dot (a, b, c) (x, y, z) = a * x + b * y + c * z"

text \<open>
  The exceptions the interpreter and numpy raise in the modelled code. The last one is
  the error class the specification names for an unsolvable system; the solvers define
  no exception of their own.
\<close>

datatype error =
    IndexError
  | TypeError
  | ValueError
  | AttributeError
  | LinAlgError
  | GeometryDegenerateError

definition err_bind :: "error + 'a \<Rightarrow> ('a \<Rightarrow> error + 'b) \<Rightarrow> error + 'b" where
  "err_bind m f = (case m of Inl e \<Rightarrow> Inl e | Inr x \<Rightarrow> f x)"

text \<open>A \<^verbatim>\<open>for\<close> loop whose body may raise: the first exception ends the loop.\<close>

fun for_each :: "'a list \<Rightarrow> ('a \<Rightarrow> 's \<Rightarrow> error + 's) \<Rightarrow> 's \<Rightarrow> error + 's" where
  "for_each [] body s = Inr s"
| "for_each (x # xs) body s =
     (case body x s of Inl e \<Rightarrow> Inl e | Inr s' \<Rightarrow> for_each xs body s')"

text \<open>
  A two-dimensional ndarray: the number of columns is part of the shape even when the
  array has no row, and \<^verbatim>\<open>vstack\<close> checks it.
\<close>

record 'a array2 =
  shape1 :: nat
  rows :: "'a list list"

definition shape0 :: "'a array2 \<Rightarrow> nat" where
  "shape0 a = length (rows a)"

definition rectangular :: "'a array2 \<Rightarrow> bool" where
  "rectangular a = list_all (\<lambda>r. length r = shape1 a) (rows a)"

definition norm_index :: "nat \<Rightarrow> int \<Rightarrow> error + nat" where
  "norm_index n i =
     (if i < 0 then (if 0 \<le> i + int n then Inr (nat (i + int n)) else Inl IndexError)
      else if i < int n then Inr (nat i) else Inl IndexError)"

definition get1 :: "'a list \<Rightarrow> nat \<Rightarrow> error + 'a" where
  "get1 xs i = (if i < length xs then Inr (xs ! i) else Inl IndexError)"

definition get2 :: "'a array2 \<Rightarrow> int \<Rightarrow> int \<Rightarrow> error + 'a" where
  "get2 a i j =
     err_bind (norm_index (shape0 a) i) (\<lambda>r.
     err_bind (norm_index (shape1 a) j) (\<lambda>c.
       if c < length (rows a ! r) then Inr (rows a ! r ! c) else Inl IndexError))"

definition set2 :: "'a array2 \<Rightarrow> int \<Rightarrow> int \<Rightarrow> 'a \<Rightarrow> error + 'a array2" where
  "set2 a i j v =
     err_bind (norm_index (shape0 a) i) (\<lambda>r.
     err_bind (norm_index (shape1 a) j) (\<lambda>c.
       if c < length (rows a ! r)
       then Inr (a\<lparr>rows := (rows a)[r := (rows a ! r)[c := v]]\<rparr>)
       else Inl IndexError))"

definition vstack :: "'a array2 \<Rightarrow> 'a array2 \<Rightarrow> error + 'a array2" where
  "vstack a b =
     (if shape1 a = shape1 b then Inr \<lparr>shape1 = shape1 a, rows = rows a @ rows b\<rparr>
      else Inl ValueError)"

definition ravel :: "'a array2 \<Rightarrow> 'a list" where
  "ravel a = concat (rows a)"

section \<open>Vortices, panels, wings\<close>

text \<open>
  Modelled from the spec: the vortex classes of \<^verbatim>\<open>aerodynamics.py\<close> are not among the
  sources. A line vortex has an origin and a termination; its vector and its center
  (midpoint) are derived. A ring vortex is four vertices and a strength, \<^verbatim>\<open>None\<close> until
  first solved; its legs run front (right to left), left (front to back), back (left to
  right) and right (back to front), as the docstrings of \<^verbatim>\<open>initialize_panel_vortices\<close>
  describe them.
\<close>

record line_vortex =
  origin :: vec3
  termination_point :: vec3

definition vector :: "line_vortex \<Rightarrow> vec3" where
  "vector l = vsub (termination_point l) (origin l)"

definition center :: "line_vortex \<Rightarrow> vec3" where
  "center l = vadd (origin l) (smul 0.5 (vector l))"

record ring_vortex =
  front_left_vertex :: vec3
  front_right_vertex :: vec3
  rv_back_left_vertex :: vec3
  rv_back_right_vertex :: vec3
  strength :: "real option"

definition front_leg :: "ring_vortex \<Rightarrow> line_vortex" where
  "front_leg rv = \<lparr>origin = front_right_vertex rv, termination_point = front_left_vertex rv\<rparr>"

definition left_leg :: "ring_vortex \<Rightarrow> line_vortex" where
  "left_leg rv = \<lparr>origin = front_left_vertex rv, termination_point = rv_back_left_vertex rv\<rparr>"

definition back_leg :: "ring_vortex \<Rightarrow> line_vortex" where
  "back_leg rv = \<lparr>origin = rv_back_left_vertex rv, termination_point = rv_back_right_vertex rv\<rparr>"

definition right_leg :: "ring_vortex \<Rightarrow> line_vortex" where
  "right_leg rv = \<lparr>origin = rv_back_right_vertex rv, termination_point = front_right_vertex rv\<rparr>"

definition RingVortex :: "vec3 \<Rightarrow> vec3 \<Rightarrow> vec3 \<Rightarrow> vec3 \<Rightarrow> real option \<Rightarrow> ring_vortex" where
  "RingVortex fl fr bl br s =
     \<lparr>front_left_vertex = fl, front_right_vertex = fr,
      rv_back_left_vertex = bl, rv_back_right_vertex = br, strength = s\<rparr>"

text \<open>
  Modelled from the spec: \<^verbatim>\<open>update_position\<close> replaces the four defining vertices (the
  legs follow, being derived) and \<^verbatim>\<open>update_strength\<close> sets the strength; neither is
  among the sources.
\<close>

definition update_position :: "ring_vortex \<Rightarrow> vec3 \<Rightarrow> vec3 \<Rightarrow> vec3 \<Rightarrow> vec3 \<Rightarrow> ring_vortex" where
  "update_position rv fl fr bl br =
     rv\<lparr>front_left_vertex := fl, front_right_vertex := fr,
        rv_back_left_vertex := bl, rv_back_right_vertex := br\<rparr>"

definition update_strength :: "ring_vortex \<Rightarrow> real \<Rightarrow> ring_vortex" where
  "update_strength rv g = rv\<lparr>strength := Some g\<rparr>"

record horseshoe_vortex =
  finite_leg :: line_vortex
  hs_strength :: "real option"

definition hs_update_strength :: "horseshoe_vortex \<Rightarrow> real \<Rightarrow> horseshoe_vortex" where
  "hs_update_strength h g = h\<lparr>hs_strength := Some g\<rparr>"

record panel =
  back_left_vertex :: vec3
  back_right_vertex :: vec3
  collocation_point :: vec3
  normal_direction :: vec3
  area :: real
  is_leading_edge :: bool
  is_trailing_edge :: bool
  ring_vortex :: ring_vortex
  horseshoe_vortex :: "horseshoe_vortex option"
  near_field_force_geometry_axes :: vec3
  near_field_moment_geometry_axes :: vec3

record wing =
  num_chordwise_panels :: nat
  num_spanwise_panels :: nat
  panels :: "panel array2"
  wake_ring_vortex_vertices :: "vec3 array2"
  wake_ring_vortices :: "ring_vortex option array2"
  streamline_points :: "vec3 array2"

record airplane =
  wings :: "wing list"
  xyz_ref :: vec3
  num_panels :: nat

text \<open>
  The operating point's methods are in the absent \<^verbatim>\<open>performance.py\<close>; the record holds
  what \<^verbatim>\<open>calculate_freestream_velocity_geometry_axes\<close> returns.
\<close>

record operating_point =
  density :: real
  freestream_velocity_geometry_axes :: vec3

text \<open>
  What the solvers call and the sources do not contain is a parameter: the velocity a
  ring or horseshoe vortex induces at a point (with its strength, and with strength
  one), the flapping velocity the movement reports for a named point of a panel (it
  reads the poses, so it takes the airplanes), the center of a ring vortex, and numpy's
  dense solver.
\<close>

record externals =
  ring_induced_velocity :: "ring_vortex \<Rightarrow> vec3 \<Rightarrow> vec3"
  ring_normalized_induced_velocity :: "ring_vortex \<Rightarrow> vec3 \<Rightarrow> vec3"
  horseshoe_induced_velocity :: "horseshoe_vortex \<Rightarrow> vec3 \<Rightarrow> vec3"
  horseshoe_normalized_induced_velocity :: "horseshoe_vortex \<Rightarrow> vec3 \<Rightarrow> vec3"
  get_flapping_velocity_at_point_on_panel ::
    "airplane list \<Rightarrow> nat \<Rightarrow> int \<Rightarrow> nat \<Rightarrow> string \<Rightarrow> nat \<Rightarrow> vec3"
  ring_center :: "ring_vortex \<Rightarrow> vec3"
  linalg_solve :: "real array2 \<Rightarrow> real list \<Rightarrow> error + real list"

text \<open>
  Modelled from the spec: the panel's methods are in the absent \<^verbatim>\<open>geometry.py\<close>. The
  velocity a panel induces is the sum over the bound vortices it owns.
\<close>

definition calculate_induced_velocity :: "externals \<Rightarrow> panel \<Rightarrow> vec3 \<Rightarrow> vec3" where
  "calculate_induced_velocity X p point =
     vadd (ring_induced_velocity X (ring_vortex p) point)
       (case horseshoe_vortex p of None \<Rightarrow> zeros3
        | Some h \<Rightarrow> horseshoe_induced_velocity X h point)"

definition calculate_normalized_induced_velocity :: "externals \<Rightarrow> panel \<Rightarrow> vec3 \<Rightarrow> vec3" where
  "calculate_normalized_induced_velocity X p point =
     vadd (ring_normalized_induced_velocity X (ring_vortex p) point)
       (case horseshoe_vortex p of None \<Rightarrow> zeros3
        | Some h \<Rightarrow> horseshoe_normalized_induced_velocity X h point)"

section \<open>The unsteady ring vortex lattice solver\<close>

record unsteady_solver =
  airplanes :: "airplane list"
  operating_points :: "operating_point list"
  num_steps :: nat
  delta_time :: real
  current_step :: nat
  current_wing_wing_influences :: "real array2"
  current_freestream_wing_influences :: "real list"
  current_wake_wing_influences :: "real list"
  current_vortex_strengths :: "real list"

definition current_airplane :: "unsteady_solver \<Rightarrow> error + airplane" where
  "current_airplane S = get1 (airplanes S) (current_step S)"

definition current_operating_point :: "unsteady_solver \<Rightarrow> error + operating_point" where
  "current_operating_point S = get1 (operating_points S) (current_step S)"

definition current_freestream_velocity :: "unsteady_solver \<Rightarrow> error + vec3" where
  "current_freestream_velocity S =
     err_bind (current_operating_point S) (\<lambda>p. Inr (freestream_velocity_geometry_axes p))"

subsection \<open>Solution velocity\<close>

definition panels_velocity :: "externals \<Rightarrow> wing \<Rightarrow> vec3 \<Rightarrow> vec3 \<Rightarrow> vec3" where
  "panels_velocity X w point v =
     fold (\<lambda>p u. vadd u (calculate_induced_velocity X p point)) (ravel (panels w)) v"

definition wake_velocity :: "externals \<Rightarrow> wing \<Rightarrow> vec3 \<Rightarrow> vec3 \<Rightarrow> vec3" where
  "wake_velocity X w point v =
     fold (\<lambda>r u. case r of None \<Rightarrow> u | Some rv \<Rightarrow> vadd u (ring_induced_velocity X rv point))
       (ravel (wake_ring_vortices w)) v"

definition solution_velocity :: "externals \<Rightarrow> airplane \<Rightarrow> vec3 \<Rightarrow> vec3 \<Rightarrow> vec3" where
  "solution_velocity X a freestream point =
     vadd (fold (\<lambda>w v. wake_velocity X w point (panels_velocity X w point v)) (wings a) zeros3)
       freestream"

definition calculate_solution_velocity :: "externals \<Rightarrow> unsteady_solver \<Rightarrow> vec3 \<Rightarrow> error + vec3" where
  "calculate_solution_velocity X S point =
     err_bind (current_airplane S) (\<lambda>a.
     err_bind (current_freestream_velocity S) (\<lambda>fs.
       Inr (solution_velocity X a fs point)))"

subsection \<open>Near field forces and moments\<close>

text \<open>
  A strength is a float or \<^verbatim>\<open>None\<close>; arithmetic on \<^verbatim>\<open>None\<close> raises TypeError, and
  \<^verbatim>\<open>None != 0\<close> is true.
\<close>

definition py_sub :: "real option \<Rightarrow> real option \<Rightarrow> error + real option" where
  "py_sub a b =
     (case a of None \<Rightarrow> Inl TypeError
      | Some x \<Rightarrow> (case b of None \<Rightarrow> Inl TypeError | Some y \<Rightarrow> Inr (Some (x - y))))"

text \<open>
  The strengths of the right, front and left bound legs of the panel at a position, as
  both ring solvers compute them.
\<close>

definition bound_vortex_strengths ::
  "wing \<Rightarrow> nat \<Rightarrow> nat \<Rightarrow> panel \<Rightarrow> error + (real option \<times> real option \<times> real option)" where
  "bound_vortex_strengths w chordwise_location spanwise_location p =
     (let is_right_edge = (spanwise_location + 1 = num_spanwise_panels w);
          is_left_edge = (spanwise_location = 0);
          right_bound_vortex_strength =
            (if is_right_edge then strength (ring_vortex p) else Some 0)
      in
      err_bind
        (if is_leading_edge p then Inr (strength (ring_vortex p))
         else err_bind (get2 (panels w) (int chordwise_location - 1) (int spanwise_location))
                (\<lambda>q. py_sub (strength (ring_vortex p)) (strength (ring_vortex q))))
        (\<lambda>front_bound_vortex_strength.
      err_bind
        (if is_left_edge then Inr (strength (ring_vortex p))
         else err_bind (get2 (panels w) (int chordwise_location) (int spanwise_location - 1))
                (\<lambda>q. py_sub (strength (ring_vortex p)) (strength (ring_vortex q))))
        (\<lambda>left_bound_vortex_strength.
      Inr (right_bound_vortex_strength, front_bound_vortex_strength,
           left_bound_vortex_strength))))"

definition bound_leg_force :: "real \<Rightarrow> real option \<Rightarrow> vec3 \<Rightarrow> line_vortex \<Rightarrow> error + vec3" where
  "bound_leg_force dens g velocity leg =
     (case g of None \<Rightarrow> Inl TypeError
      | Some gamma \<Rightarrow> Inr (smul (dens * gamma) (cross velocity (vector leg))))"

definition add_force_and_moment :: "vec3 \<Rightarrow> vec3 \<Rightarrow> vec3 \<Rightarrow> panel \<Rightarrow> panel" where
  "add_force_and_moment ref point force p =
     p\<lparr>near_field_force_geometry_axes := vadd (near_field_force_geometry_axes p) force,
       near_field_moment_geometry_axes :=
         vadd (near_field_moment_geometry_axes p) (cross (vsub point ref) force)\<rparr>"

text \<open>
  One of the three \<^verbatim>\<open>if ..._bound_vortex_strength != 0\<close> blocks of the unsteady solver:
  the velocity is taken at the point the block names, the flapping velocity under the
  name it passes.
\<close>

definition unsteady_leg ::
  "externals \<Rightarrow> airplane list \<Rightarrow> nat \<Rightarrow> airplane \<Rightarrow> operating_point \<Rightarrow> nat \<Rightarrow> nat \<Rightarrow> nat
     \<Rightarrow> real option \<Rightarrow> vec3 \<Rightarrow> string \<Rightarrow> line_vortex \<Rightarrow> panel \<Rightarrow> error + panel" where
  "unsteady_leg X as step a opp wing_num c s g point point_name leg p =
     (if g = Some 0 then Inr p
      else
        let velocity =
              vadd (solution_velocity X a (freestream_velocity_geometry_axes opp) point)
                (get_flapping_velocity_at_point_on_panel X as wing_num (int c) s point_name step)
        in err_bind (bound_leg_force (density opp) g velocity leg) (\<lambda>force.
             Inr (add_force_and_moment (xyz_ref a) (center leg) force p)))"

definition unsteady_force :: "real \<Rightarrow> panel \<Rightarrow> panel \<Rightarrow> error + vec3" where
  "unsteady_force dens p last_panel =
     (case strength (ring_vortex p) of None \<Rightarrow> Inl TypeError
      | Some vortex_strength \<Rightarrow>
          (case strength (ring_vortex last_panel) of None \<Rightarrow> Inl TypeError
           | Some last_vortex_strength \<Rightarrow>
               Inr (smul (dens * (vortex_strength - last_vortex_strength) * area p)
                      (normal_direction p))))"

text \<open>
  The three bound-leg blocks of the loop body, in the source's order (right, front,
  left), starting from the panel with its force and moment reset.
\<close>

definition unsteady_bound_legs ::
  "externals \<Rightarrow> airplane list \<Rightarrow> nat \<Rightarrow> airplane \<Rightarrow> operating_point \<Rightarrow> nat \<Rightarrow> nat \<Rightarrow> nat
     \<Rightarrow> panel \<Rightarrow> real option \<Rightarrow> real option \<Rightarrow> real option \<Rightarrow> error + panel" where
  "unsteady_bound_legs X as step a opp wing_num c s p right front left =
     err_bind
       (unsteady_leg X as step a opp wing_num c s right
          (center (right_leg (ring_vortex p))) ''ring_vortex.right_leg.center''
          (right_leg (ring_vortex p))
          (p\<lparr>near_field_force_geometry_axes := zeros3,
             near_field_moment_geometry_axes := zeros3\<rparr>)) (\<lambda>p1.
     err_bind
       (unsteady_leg X as step a opp wing_num c s front
          (center (front_leg (ring_vortex p))) ''ring_vortex.front_leg.center''
          (front_leg (ring_vortex p)) p1) (\<lambda>p2.
       unsteady_leg X as step a opp wing_num c s left
          (center (left_leg (ring_vortex p))) ''ring_vortex.left_leg.center''
          (left_leg (ring_vortex p)) p2))"

text \<open>
  The body of the loop over panel positions. The induced velocities read the vortices
  only, so the airplane passed is the one the loop has reached.
\<close>

definition unsteady_panel_forces ::
  "externals \<Rightarrow> airplane list \<Rightarrow> nat \<Rightarrow> airplane \<Rightarrow> airplane \<Rightarrow> operating_point
     \<Rightarrow> nat \<Rightarrow> nat \<Rightarrow> nat \<Rightarrow> error + panel" where
  "unsteady_panel_forces X as step a last_airplane opp wing_num c s =
     err_bind (get1 (wings a) wing_num) (\<lambda>w.
     err_bind (get1 (wings last_airplane) wing_num) (\<lambda>last_wing.
     err_bind (get2 (panels w) (int c) (int s)) (\<lambda>p.
     err_bind (get2 (panels last_wing) (int c) (int s)) (\<lambda>last_panel.
     err_bind (bound_vortex_strengths w c s p) (\<lambda>(right, front, left).
     err_bind (unsteady_bound_legs X as step a opp wing_num c s p right front left) (\<lambda>p3.
     err_bind (unsteady_force (density opp) p last_panel) (\<lambda>unsteady_force_geometry_axes.
       Inr (add_force_and_moment (xyz_ref a) (ring_center X (ring_vortex p))
              unsteady_force_geometry_axes p3))))))))"

text \<open>
  \<^verbatim>\<open>last_airplane\<close> is \<^verbatim>\<open>airplanes[step - 1]\<close> after step 0 and, at step 0, the current
  airplane itself (the same object, so it follows the loop's updates).
\<close>

definition last_airplane_at :: "nat \<Rightarrow> airplane \<Rightarrow> airplane \<Rightarrow> airplane" where
  "last_airplane_at step previous current = (if step > 0 then previous else current)"

definition store_panel :: "airplane \<Rightarrow> nat \<Rightarrow> nat \<Rightarrow> nat \<Rightarrow> panel \<Rightarrow> error + airplane" where
  "store_panel a wing_num c s p =
     err_bind (get1 (wings a) wing_num) (\<lambda>w.
     err_bind (set2 (panels w) (int c) (int s) p) (\<lambda>ps.
       Inr (a\<lparr>wings := (wings a)[wing_num := w\<lparr>panels := ps\<rparr>]\<rparr>)))"

text \<open>
  The method, up to the panels' forces and moments; the totals and coefficients it then
  derives from them go through the operating point's absent methods and are not
  modelled. At step 0 the last airplane is the current one.
\<close>

definition calculate_near_field_forces_and_moments ::
  "externals \<Rightarrow> unsteady_solver \<Rightarrow> error + unsteady_solver" where
  "calculate_near_field_forces_and_moments X S =
     (let step = current_step S;
          last_step = (if step > 0 then step - 1 else step)
      in
      err_bind (current_airplane S) (\<lambda>a0.
      err_bind (current_operating_point S) (\<lambda>opp.
      err_bind (get1 (airplanes S) last_step) (\<lambda>last0.
      err_bind
        (for_each [0..<length (wings a0)] (\<lambda>wing_num a.
           err_bind (get1 (wings a) wing_num) (\<lambda>w.
             for_each (List.product [0..<num_chordwise_panels w] [0..<num_spanwise_panels w])
               (\<lambda>(c, s) a'.
                  err_bind
                    (unsteady_panel_forces X ((airplanes S)[step := a']) step a'
                       (last_airplane_at step last0 a') opp wing_num c s)
                    (\<lambda>p'. store_panel a' wing_num c s p'))
               a))
           a0) (\<lambda>a1.
        Inr (S\<lparr>airplanes := (airplanes S)[step := a1]\<rparr>))))))"

section \<open>Influences and vortex strengths\<close>

definition set1 :: "'a list \<Rightarrow> nat \<Rightarrow> 'a \<Rightarrow> error + 'a list" where
  "set1 xs i v = (if i < length xs then Inr (xs[i := v]) else Inl IndexError)"

text \<open>
  \<^verbatim>\<open>np.ndenumerate(np.ravel(wing.panels))\<close>: the panels of a wing in row-major order,
  each with its index in that order.
\<close>

definition ndenumerate_ravel :: "'a array2 \<Rightarrow> (nat \<times> 'a) list" where
  "ndenumerate_ravel a = enumerate 0 (ravel a)"

subsection \<open>Unsteady solver\<close>

definition calculate_wing_wing_influences ::
  "externals \<Rightarrow> unsteady_solver \<Rightarrow> error + unsteady_solver" where
  "calculate_wing_wing_influences X S =
     err_bind (current_airplane S) (\<lambda>a.
     err_bind
       (for_each (wings a) (\<lambda>collocation_panel_wing M.
          for_each (ndenumerate_ravel (panels collocation_panel_wing))
            (\<lambda>(collocation_panel_index, collocation_panel) M.
               for_each (wings a) (\<lambda>vortex_panel_wing M.
                 for_each (ndenumerate_ravel (panels vortex_panel_wing))
                   (\<lambda>(vortex_panel_index, vortex_panel) M.
                      set2 M (int collocation_panel_index) (int vortex_panel_index)
                        (dot (calculate_normalized_induced_velocity X vortex_panel
                                (collocation_point collocation_panel))
                             (normal_direction collocation_panel)))
                   M)
                 M)
            M)
          \<lparr>shape1 = num_panels a,
           rows = replicate (num_panels a) (replicate (num_panels a) 0)\<rparr>)
       (\<lambda>M. Inr (S\<lparr>current_wing_wing_influences := M\<rparr>)))"

text \<open>
  The loop the two influence vectors share: over the wings by position, over the
  chordwise and spanwise positions of each, storing the panel's influence at
  \<^verbatim>\<open>chordwise_position * num_spanwise_panels + spanwise_position\<close> of a vector of
  \<^verbatim>\<open>num_panels\<close> zeros.
\<close>

definition wing_influence_loop ::
  "(nat \<Rightarrow> nat \<Rightarrow> nat \<Rightarrow> panel \<Rightarrow> real) \<Rightarrow> nat \<Rightarrow> wing \<Rightarrow> real list \<Rightarrow> error + real list" where
  "wing_influence_loop influence wing_position w v =
     for_each (List.product [0..<num_chordwise_panels w] [0..<num_spanwise_panels w])
       (\<lambda>(c, s) v.
          err_bind (get2 (panels w) (int c) (int s)) (\<lambda>collocation_panel.
            set1 v (c * num_spanwise_panels w + s)
              (influence wing_position c s collocation_panel)))
       v"

definition influence_vector ::
  "(nat \<Rightarrow> nat \<Rightarrow> nat \<Rightarrow> panel \<Rightarrow> real) \<Rightarrow> airplane \<Rightarrow> error + real list" where
  "influence_vector influence a =
     for_each [0..<length (wings a)]
       (\<lambda>wing_position v.
          err_bind (get1 (wings a) wing_position) (\<lambda>w.
            wing_influence_loop influence wing_position w v))
       (replicate (num_panels a) 0)"

definition freestream_influence ::
  "externals \<Rightarrow> unsteady_solver \<Rightarrow> vec3 \<Rightarrow> nat \<Rightarrow> nat \<Rightarrow> nat \<Rightarrow> panel \<Rightarrow> real" where
  "freestream_influence X S freestream wing_position c s collocation_panel =
     dot (vadd freestream
            (get_flapping_velocity_at_point_on_panel X (airplanes S) wing_position (int c) s
               ''collocation_point'' (current_step S)))
         (normal_direction collocation_panel)"

definition calculate_freestream_wing_influences ::
  "externals \<Rightarrow> unsteady_solver \<Rightarrow> error + unsteady_solver" where
  "calculate_freestream_wing_influences X S =
     err_bind (current_airplane S) (\<lambda>a.
     err_bind (current_freestream_velocity S) (\<lambda>freestream.
     err_bind (influence_vector (freestream_influence X S freestream) a) (\<lambda>v.
       Inr (S\<lparr>current_freestream_wing_influences := v\<rparr>))))"

definition wake_influence ::
  "externals \<Rightarrow> airplane \<Rightarrow> nat \<Rightarrow> nat \<Rightarrow> nat \<Rightarrow> panel \<Rightarrow> real" where
  "wake_influence X a wing_position c s collocation_panel =
     dot (fold (\<lambda>w v. wake_velocity X w (collocation_point collocation_panel) v)
            (wings a) zeros3)
         (normal_direction collocation_panel)"

definition calculate_wake_wing_influences ::
  "externals \<Rightarrow> unsteady_solver \<Rightarrow> error + unsteady_solver" where
  "calculate_wake_wing_influences X S =
     err_bind (current_airplane S) (\<lambda>a.
     err_bind (influence_vector (wake_influence X a) a) (\<lambda>v.
       Inr (S\<lparr>current_wake_wing_influences := v\<rparr>)))"

text \<open>
  The loop over the raveled panels of every wing that hands each panel the entry of the
  solved vector at the panel's index within its wing.
\<close>

fun map_indexed :: "(nat \<Rightarrow> 'a \<Rightarrow> error + 'b) \<Rightarrow> nat \<Rightarrow> 'a list \<Rightarrow> error + 'b list" where
  "map_indexed f i [] = Inr []"
| "map_indexed f i (x # xs) =
     err_bind (f i x) (\<lambda>y. err_bind (map_indexed f (Suc i) xs) (\<lambda>ys. Inr (y # ys)))"

fun map_rows :: "(nat \<Rightarrow> 'a \<Rightarrow> error + 'b) \<Rightarrow> nat \<Rightarrow> 'a list list \<Rightarrow> error + 'b list list" where
  "map_rows f i [] = Inr []"
| "map_rows f i (r # rs) =
     err_bind (map_indexed f i r) (\<lambda>r'.
     err_bind (map_rows f (i + length r) rs) (\<lambda>rs'. Inr (r' # rs')))"

definition ring_panel_update_strength :: "real list \<Rightarrow> nat \<Rightarrow> panel \<Rightarrow> error + panel" where
  "ring_panel_update_strength strengths panel_index p =
     err_bind (get1 strengths panel_index) (\<lambda>g.
       Inr (p\<lparr>ring_vortex := update_strength (ring_vortex p) g,
              horseshoe_vortex :=
                (case horseshoe_vortex p of None \<Rightarrow> None
                 | Some h \<Rightarrow> Some (hs_update_strength h g))\<rparr>))"

definition update_wing_strengths ::
  "(nat \<Rightarrow> panel \<Rightarrow> error + panel) \<Rightarrow> wing \<Rightarrow> error + wing" where
  "update_wing_strengths f w =
     err_bind (map_rows f 0 (rows (panels w))) (\<lambda>rs.
       Inr (w\<lparr>panels := (panels w)\<lparr>rows := rs\<rparr>\<rparr>))"

definition update_airplane_strengths ::
  "(nat \<Rightarrow> panel \<Rightarrow> error + panel) \<Rightarrow> airplane \<Rightarrow> error + airplane" where
  "update_airplane_strengths f a =
     err_bind (map_indexed (\<lambda>i w. update_wing_strengths f w) 0 (wings a)) (\<lambda>ws.
       Inr (a\<lparr>wings := ws\<rparr>))"

text \<open>
  \<^verbatim>\<open>- wake - freestream\<close> on two one-dimensional arrays, as numpy evaluates it: entry by
  entry when the lengths agree; an array of length one is stretched to the length of
  the other; any other pair of lengths raises ValueError.
\<close>

definition right_hand_side :: "real list \<Rightarrow> real list \<Rightarrow> error + real list" where
  "right_hand_side wake freestream =
     (if length wake = length freestream
      then Inr (map (\<lambda>(w, f). - w - f) (zip wake freestream))
      else if length wake = 1 then Inr (map (\<lambda>f. - (wake ! 0) - f) freestream)
      else if length freestream = 1 then Inr (map (\<lambda>w. - w - (freestream ! 0)) wake)
      else Inl ValueError)"

definition calculate_vortex_strengths ::
  "externals \<Rightarrow> unsteady_solver \<Rightarrow> error + unsteady_solver" where
  "calculate_vortex_strengths X S =
     err_bind (right_hand_side (current_wake_wing_influences S)
                 (current_freestream_wing_influences S)) (\<lambda>b.
     err_bind (linalg_solve X (current_wing_wing_influences S) b) (\<lambda>strengths.
     err_bind (current_airplane S) (\<lambda>a.
     err_bind (update_airplane_strengths (ring_panel_update_strength strengths) a) (\<lambda>a'.
       Inr (S\<lparr>current_vortex_strengths := strengths,
              airplanes := (airplanes S)[current_step S := a']\<rparr>)))))"

subsection \<open>Wake\<close>

definition quarter_step :: "vec3 \<Rightarrow> vec3 \<Rightarrow> real \<Rightarrow> vec3" where
  "quarter_step vertex velocity_here dt = vadd vertex (smul dt (smul 0.25 velocity_here))"

text \<open>
  The new front row of wake vertices: the back vertices of the next airplane's
  trailing-edge panels, moved a quarter step with the freestream and flapping velocity.
  The row starts as zeros (at steps after the first numpy leaves it uninitialised; every
  entry is written when the wing has a spanwise panel).
\<close>

definition new_row_of_wake_ring_vortex_vertices ::
  "externals \<Rightarrow> airplane list \<Rightarrow> nat \<Rightarrow> vec3 \<Rightarrow> real \<Rightarrow> nat \<Rightarrow> wing \<Rightarrow> wing
     \<Rightarrow> error + vec3 list" where
  "new_row_of_wake_ring_vortex_vertices X as step freestream dt wing_num this_wing next_wing =
     (let n = num_spanwise_panels this_wing;
          chordwise_position = int (num_chordwise_panels this_wing) - 1
      in
      for_each [0..<n]
        (\<lambda>spanwise_position row.
           err_bind (get2 (panels next_wing) chordwise_position (int spanwise_position))
             (\<lambda>next_panel.
                let row1 = row[spanwise_position :=
                      quarter_step (back_left_vertex next_panel)
                        (vadd freestream
                           (get_flapping_velocity_at_point_on_panel X as wing_num
                              chordwise_position spanwise_position ''back_left_vertex'' step))
                        dt]
                in Inr (if spanwise_position + 1 = n
                        then row1[spanwise_position + 1 :=
                               quarter_step (back_right_vertex next_panel)
                                 (vadd freestream
                                    (get_flapping_velocity_at_point_on_panel X as wing_num
                                       chordwise_position spanwise_position
                                       ''back_right_vertex'' step))
                                 dt]
                        else row1)))
        (replicate (n + 1) zeros3))"

text \<open>The back vertices of the next trailing-edge ring vortices move onto the new row.\<close>

definition update_trailing_edge_ring_vortices :: "wing \<Rightarrow> vec3 list \<Rightarrow> wing \<Rightarrow> error + wing" where
  "update_trailing_edge_ring_vortices this_wing row next_wing =
     (let n = num_spanwise_panels this_wing;
          chordwise_position = int (num_chordwise_panels this_wing) - 1
      in
      err_bind
        (for_each [0..<n]
           (\<lambda>spanwise_position ps.
              err_bind (get2 ps chordwise_position (int spanwise_position)) (\<lambda>next_panel.
                set2 ps chordwise_position (int spanwise_position)
                  (next_panel\<lparr>ring_vortex :=
                     update_position (ring_vortex next_panel)
                       (front_left_vertex (ring_vortex next_panel))
                       (front_right_vertex (ring_vortex next_panel))
                       (row ! spanwise_position) (row ! (spanwise_position + 1))\<rparr>)))
           (panels next_wing))
        (\<lambda>ps. Inr (next_wing\<lparr>panels := ps\<rparr>)))"

text \<open>
  Convection of the wake vertices by one time step. The velocity is the freestream
  velocity; the call to the solution velocity is commented out in the source.
\<close>

definition convected_row :: "vec3 \<Rightarrow> real \<Rightarrow> nat \<Rightarrow> vec3 array2 \<Rightarrow> error + vec3 list" where
  "convected_row freestream dt n V =
     for_each (List.product [0..<shape0 V] [0..<shape1 V])
       (\<lambda>(chordwise_vertex_position, spanwise_vertex_position) row.
          err_bind (get2 V (int chordwise_vertex_position) (int spanwise_vertex_position))
            (\<lambda>vertex. set1 row spanwise_vertex_position (vadd vertex (smul dt freestream))))
       (replicate (n + 1) zeros3)"

definition convect_vertices :: "vec3 \<Rightarrow> real \<Rightarrow> vec3 array2 \<Rightarrow> error + vec3 array2" where
  "convect_vertices freestream dt V =
     for_each (List.product [0..<shape0 V] [0..<shape1 V])
       (\<lambda>(chordwise_vertex_position, spanwise_vertex_position) V'.
          err_bind (get2 V' (int chordwise_vertex_position) (int spanwise_vertex_position))
            (\<lambda>vertex. set2 V' (int chordwise_vertex_position) (int spanwise_vertex_position)
                         (vadd vertex (smul dt freestream))))
       V"

definition row_array :: "nat \<Rightarrow> 'a list \<Rightarrow> 'a array2" where
  "row_array n row = \<lparr>shape1 = n, rows = [row]\<rparr>"

definition populate_wing_wake_vortex_vertices ::
  "externals \<Rightarrow> airplane list \<Rightarrow> nat \<Rightarrow> vec3 \<Rightarrow> real \<Rightarrow> nat \<Rightarrow> wing \<Rightarrow> wing \<Rightarrow> error + wing" where
  "populate_wing_wake_vortex_vertices X as step freestream dt wing_num this_wing next_wing =
     (let n = num_spanwise_panels this_wing in
      if step = 0 then
        err_bind (new_row_of_wake_ring_vortex_vertices X as step freestream dt wing_num
                    this_wing next_wing) (\<lambda>row.
        err_bind (update_trailing_edge_ring_vortices this_wing row next_wing) (\<lambda>next1.
        err_bind (vstack (wake_ring_vortex_vertices next1) (row_array (n + 1) row)) (\<lambda>V1.
        err_bind (convected_row freestream dt n V1) (\<lambda>row2.
        err_bind (vstack V1 (row_array (n + 1) row2)) (\<lambda>V2.
          Inr (next1\<lparr>wake_ring_vortex_vertices := V2\<rparr>))))))
      else
        err_bind (convect_vertices freestream dt (wake_ring_vortex_vertices this_wing)) (\<lambda>V1.
        err_bind (new_row_of_wake_ring_vortex_vertices X as step freestream dt wing_num
                    this_wing next_wing) (\<lambda>row.
        err_bind (update_trailing_edge_ring_vortices this_wing row next_wing) (\<lambda>next1.
        err_bind (vstack (row_array (n + 1) row) V1) (\<lambda>V2.
          Inr (next1\<lparr>wake_ring_vortex_vertices := V2\<rparr>))))))"

text \<open>
  Both wake methods change the wings of the next airplane only, wing by wing; the loop
  over the wing positions is shared.
\<close>

definition for_next_wings ::
  "(airplane list \<Rightarrow> nat \<Rightarrow> wing \<Rightarrow> wing \<Rightarrow> error + wing) \<Rightarrow> unsteady_solver
     \<Rightarrow> error + unsteady_solver" where
  "for_next_wings f S =
     (let step = current_step S in
      err_bind (current_airplane S) (\<lambda>this_airplane.
        if step + 1 < num_steps S then
          err_bind (get1 (airplanes S) (step + 1)) (\<lambda>next_airplane0.
          err_bind
            (for_each [0..<length (wings this_airplane)]
               (\<lambda>wing_num as.
                  err_bind (get1 as (step + 1)) (\<lambda>next_airplane.
                  err_bind (get1 (wings this_airplane) wing_num) (\<lambda>this_wing.
                  err_bind (get1 (wings next_airplane) wing_num) (\<lambda>next_wing.
                  err_bind (f as wing_num this_wing next_wing) (\<lambda>next_wing'.
                    Inr (as[step + 1 :=
                           next_airplane\<lparr>wings := (wings next_airplane)[wing_num := next_wing']\<rparr>]))))))
               (airplanes S))
            (\<lambda>as'. Inr (S\<lparr>airplanes := as'\<rparr>)))
        else Inr S))"

definition populate_next_airplanes_wake_vortex_vertices ::
  "externals \<Rightarrow> unsteady_solver \<Rightarrow> error + unsteady_solver" where
  "populate_next_airplanes_wake_vortex_vertices X S =
     err_bind (current_freestream_velocity S) (\<lambda>freestream.
       for_next_wings
         (\<lambda>as wing_num this_wing next_wing.
            populate_wing_wake_vortex_vertices X as (current_step S) freestream (delta_time S)
              wing_num this_wing next_wing)
         S)"

text \<open>
  The wake ring vortices of the next wing: a new front row above a copy of this wing's
  ring vortices. Every ring vortex behind the front row takes its new position from the
  vertex grid; those of the front row are created with the strength of the trailing-edge
  panel in front of them.
\<close>

definition populate_wing_wake_vortices :: "wing \<Rightarrow> wing \<Rightarrow> error + wing" where
  "populate_wing_wake_vortices this_wing_copy next_wing =
     (let V = wake_ring_vortex_vertices next_wing;
          num_chordwise_vertices = shape0 V;
          num_spanwise_vertices = shape1 V
      in
      if num_spanwise_vertices = 0 then Inl ValueError
      else
        err_bind (vstack (row_array (num_spanwise_vertices - 1)
                            (replicate (num_spanwise_vertices - 1) None))
                    (wake_ring_vortices this_wing_copy)) (\<lambda>R0.
        err_bind
          (for_each (List.product [0..<num_chordwise_vertices] [0..<num_spanwise_vertices])
             (\<lambda>(cv, sv) R.
                if sv + 1 < num_spanwise_vertices \<and> cv + 1 < num_chordwise_vertices then
                  err_bind (get2 V (int cv) (int sv)) (\<lambda>fl.
                  err_bind (get2 V (int cv) (int sv + 1)) (\<lambda>fr.
                  err_bind (get2 V (int cv + 1) (int sv)) (\<lambda>bl.
                  err_bind (get2 V (int cv + 1) (int sv + 1)) (\<lambda>br.
                  err_bind
                    (if cv > 0 then
                       err_bind (get2 R (int cv) (int sv)) (\<lambda>r.
                         case r of None \<Rightarrow> Inl AttributeError
                         | Some rv \<Rightarrow>
                             set2 R (int cv) (int sv) (Some (update_position rv fl fr bl br)))
                     else Inr R) (\<lambda>R1.
                    if cv = 0 then
                      err_bind (get2 (panels this_wing_copy)
                                  (int (num_chordwise_panels this_wing_copy) - 1) (int sv))
                        (\<lambda>p. set2 R1 (int cv) (int sv)
                               (Some (RingVortex fl fr bl br (strength (ring_vortex p)))))
                    else Inr R1)))))
                else Inr R)
             R0)
          (\<lambda>R. Inr (next_wing\<lparr>wake_ring_vortices := R\<rparr>))))"

definition populate_next_airplanes_wake_vortices :: "unsteady_solver \<Rightarrow> error + unsteady_solver" where
  "populate_next_airplanes_wake_vortices S =
     for_next_wings (\<lambda>as wing_num this_wing_copy next_wing.
        populate_wing_wake_vortices this_wing_copy next_wing) S"

definition populate_next_airplanes_wake ::
  "externals \<Rightarrow> unsteady_solver \<Rightarrow> error + unsteady_solver" where
  "populate_next_airplanes_wake X S =
     err_bind (populate_next_airplanes_wake_vortex_vertices X S)
       populate_next_airplanes_wake_vortices"

subsection \<open>Streamlines\<close>

text \<open>
  The streamline loop of one wing, shared by the solvers: for every spanwise position
  the seed goes to the first row, and each further row is the previous point plus the
  time step times the velocity there.
\<close>

definition wing_streamlines ::
  "(vec3 \<Rightarrow> vec3) \<Rightarrow> (panel \<Rightarrow> vec3) \<Rightarrow> nat \<Rightarrow> real \<Rightarrow> wing \<Rightarrow> error + wing" where
  "wing_streamlines velocity seed_point n dt w =
     (let chordwise_position = int (num_chordwise_panels w) - 1 in
      err_bind
        (for_each [0..<num_spanwise_panels w]
           (\<lambda>spanwise_position P.
              err_bind (get2 (panels w) chordwise_position (int spanwise_position)) (\<lambda>p.
              err_bind (set2 P 0 (int spanwise_position) (seed_point p)) (\<lambda>P0.
                for_each [0..<n]
                  (\<lambda>step P'.
                     err_bind (get2 P' (int step) (int spanwise_position)) (\<lambda>last_point.
                       set2 P' (int step + 1) (int spanwise_position)
                         (vadd last_point (smul dt (velocity last_point)))))
                  P0)))
           \<lparr>shape1 = num_spanwise_panels w,
            rows = replicate (n + 1) (replicate (num_spanwise_panels w) zeros3)\<rparr>)
        (\<lambda>P. Inr (w\<lparr>streamline_points := P\<rparr>)))"

fun map_err :: "('a \<Rightarrow> error + 'b) \<Rightarrow> 'a list \<Rightarrow> error + 'b list" where
  "map_err f [] = Inr []"
| "map_err f (x # xs) =
     err_bind (f x) (\<lambda>y. err_bind (map_err f xs) (\<lambda>ys. Inr (y # ys)))"

definition unsteady_seed_point :: "vec3 \<Rightarrow> real \<Rightarrow> panel \<Rightarrow> vec3" where
  "unsteady_seed_point freestream movement_delta_time p =
     vadd (center (back_leg (ring_vortex p)))
       (smul 0.25 (smul movement_delta_time freestream))"

text \<open>
  The velocity reads vortices only, so it is taken on the airplane as the method finds
  it; the method writes the wings' \<^verbatim>\<open>streamline_points\<close>.
\<close>

definition calculate_streamlines ::
  "externals \<Rightarrow> nat \<Rightarrow> real \<Rightarrow> unsteady_solver \<Rightarrow> error + unsteady_solver" where
  "calculate_streamlines X n dt S =
     err_bind (current_airplane S) (\<lambda>a.
     err_bind (current_freestream_velocity S) (\<lambda>freestream.
     err_bind
       (map_err (wing_streamlines (solution_velocity X a freestream)
                   (unsteady_seed_point freestream (delta_time S)) n dt)
          (wings a)) (\<lambda>ws.
       Inr (S\<lparr>airplanes := (airplanes S)[current_step S := a\<lparr>wings := ws\<rparr>]\<rparr>))))"

subsection \<open>The time loop\<close>

text \<open>
  One pass of the loop of \<^verbatim>\<open>run\<close>, and the first passes of the loop. The panels'
  vortices are taken as initialised.
\<close>

definition run_step :: "externals \<Rightarrow> nat \<Rightarrow> unsteady_solver \<Rightarrow> error + unsteady_solver" where
  "run_step X step S0 =
     (let S = S0\<lparr>current_step := step\<rparr> in
      err_bind (current_airplane S) (\<lambda>a.
      err_bind (current_operating_point S) (\<lambda>opp.
      err_bind (calculate_wing_wing_influences X S) (\<lambda>S1.
      err_bind (calculate_freestream_wing_influences X S1) (\<lambda>S2.
      err_bind (calculate_wake_wing_influences X S2) (\<lambda>S3.
      err_bind (calculate_vortex_strengths X S3) (\<lambda>S4.
      err_bind (calculate_near_field_forces_and_moments X S4) (\<lambda>S5.
        populate_next_airplanes_wake X S5))))))))"

definition run_steps :: "externals \<Rightarrow> nat \<Rightarrow> unsteady_solver \<Rightarrow> error + unsteady_solver" where
  "run_steps X n S = for_each [0..<n] (run_step X) S"

definition run :: "externals \<Rightarrow> unsteady_solver \<Rightarrow> error + unsteady_solver" where
  "run X S = err_bind (run_steps X (num_steps S) S) (calculate_streamlines X 10 0.1)"

section \<open>The steady ring vortex lattice solver\<close>

record steady_solver =
  st_airplane :: airplane
  st_operating_point :: operating_point
  aerodynamic_influence_coefficients :: "real array2"
  freestream_influences :: "real list"
  vortex_strengths :: "real list"

definition steady_solution_velocity :: "externals \<Rightarrow> steady_solver \<Rightarrow> vec3 \<Rightarrow> vec3" where
  "steady_solution_velocity X S point =
     vadd (fold (\<lambda>w v. panels_velocity X w point v) (wings (st_airplane S)) zeros3)
       (freestream_velocity_geometry_axes (st_operating_point S))"

text \<open>
  One of the three blocks of the steady ring solver: what it assigns to the leg's
  \<^verbatim>\<open>near_field_force\<close>, or \<^verbatim>\<open>None\<close> when the block is skipped. The point is the one the
  block passes to \<^verbatim>\<open>calculate_solution_velocity\<close>.
\<close>

definition steady_ring_leg ::
  "externals \<Rightarrow> steady_solver \<Rightarrow> real option \<Rightarrow> vec3 \<Rightarrow> line_vortex \<Rightarrow> error + vec3 option" where
  "steady_ring_leg X S g point leg =
     (if g = Some 0 then Inr None
      else err_bind
             (bound_leg_force (density (st_operating_point S)) g
                (steady_solution_velocity X S point) leg)
             (\<lambda>force. Inr (Some force)))"

text \<open>
  The body of the steady ring solver's loop: the forces assigned to the right, front and
  left legs. The panel's \<^verbatim>\<open>update_force_moment_and_pressure\<close>, called next, is absent.
\<close>

definition steady_ring_panel_forces ::
  "externals \<Rightarrow> steady_solver \<Rightarrow> wing \<Rightarrow> nat \<Rightarrow> nat
     \<Rightarrow> error + (vec3 option \<times> vec3 option \<times> vec3 option)" where
  "steady_ring_panel_forces X S w c s =
     err_bind (get2 (panels w) (int c) (int s)) (\<lambda>p.
     err_bind (bound_vortex_strengths w c s p) (\<lambda>(right, front, left).
     err_bind
       (steady_ring_leg X S right (center (right_leg (ring_vortex p)))
          (right_leg (ring_vortex p))) (\<lambda>right_force.
     err_bind
       (steady_ring_leg X S front (center (right_leg (ring_vortex p)))
          (front_leg (ring_vortex p))) (\<lambda>front_force.
     err_bind
       (steady_ring_leg X S left (center (right_leg (ring_vortex p)))
          (left_leg (ring_vortex p))) (\<lambda>left_force.
       Inr (right_force, front_force, left_force))))))"

subsection \<open>Vortex strengths\<close>

definition steady_ring_calculate_vortex_strengths ::
  "externals \<Rightarrow> steady_solver \<Rightarrow> error + steady_solver" where
  "steady_ring_calculate_vortex_strengths X S =
     err_bind (linalg_solve X (aerodynamic_influence_coefficients S)
                 (map uminus (freestream_influences S))) (\<lambda>strengths.
     err_bind (update_airplane_strengths (ring_panel_update_strength strengths)
                 (st_airplane S)) (\<lambda>a'.
       Inr (S\<lparr>vortex_strengths := strengths, st_airplane := a'\<rparr>)))"

section \<open>The steady horseshoe vortex lattice solver\<close>

text \<open>
  The horseshoe solver keeps the same attributes as the steady ring solver. Each panel
  owns a horseshoe vortex only; a panel without one has no \<^verbatim>\<open>update_strength\<close> to call.
\<close>

definition horseshoe_panel_update_strength :: "real list \<Rightarrow> nat \<Rightarrow> panel \<Rightarrow> error + panel" where
  "horseshoe_panel_update_strength strengths panel_index p =
     err_bind (get1 strengths panel_index) (\<lambda>g.
       (case horseshoe_vortex p of None \<Rightarrow> Inl AttributeError
        | Some h \<Rightarrow> Inr (p\<lparr>horseshoe_vortex := Some (hs_update_strength h g)\<rparr>)))"

definition steady_horseshoe_calculate_vortex_strengths ::
  "externals \<Rightarrow> steady_solver \<Rightarrow> error + steady_solver" where
  "steady_horseshoe_calculate_vortex_strengths X S =
     err_bind (linalg_solve X (aerodynamic_influence_coefficients S)
                 (map uminus (freestream_influences S))) (\<lambda>strengths.
     err_bind (update_airplane_strengths (horseshoe_panel_update_strength strengths)
                 (st_airplane S)) (\<lambda>a'.
       Inr (S\<lparr>vortex_strengths := strengths, st_airplane := a'\<rparr>)))"

definition panel_back_midpoint :: "panel \<Rightarrow> vec3" where
  "panel_back_midpoint p =
     vadd (back_left_vertex p) (smul 0.5 (vsub (back_right_vertex p) (back_left_vertex p)))"

text \<open>
  The streamline method of the two steady solvers, with the two constants it fixes as
  arguments: 100 steps of 0.01 in the horseshoe solver, 10 steps of 0.1 in the ring
  solver.
\<close>

definition steady_calculate_streamlines ::
  "externals \<Rightarrow> nat \<Rightarrow> real \<Rightarrow> steady_solver \<Rightarrow> error + steady_solver" where
  "steady_calculate_streamlines X n dt S =
     err_bind
       (map_err (wing_streamlines (steady_solution_velocity X S) panel_back_midpoint n dt)
          (wings (st_airplane S))) (\<lambda>ws.
       Inr (S\<lparr>st_airplane := (st_airplane S)\<lparr>wings := ws\<rparr>\<rparr>))"

definition steady_horseshoe_calculate_streamlines ::
  "externals \<Rightarrow> steady_solver \<Rightarrow> error + steady_solver" where
  "steady_horseshoe_calculate_streamlines X S = steady_calculate_streamlines X 100 0.01 S"

definition steady_ring_calculate_streamlines ::
  "externals \<Rightarrow> steady_solver \<Rightarrow> error + steady_solver" where
  "steady_ring_calculate_streamlines X S = steady_calculate_streamlines X 10 0.1 S"

section \<open>The legacy unsteady solver: wake vertices\<close>

text \<open>
  The legacy solver's \<^verbatim>\<open>run\<close> takes \<^verbatim>\<open>prescribed_wake\<close> (default true) and hands it to
  \<^verbatim>\<open>populate_next_airplanes_wake\<close>, which hands it to the vertex method; there it
  selects the velocity that convects a wake vertex.
\<close>

definition legacy_wake_vertex_velocity ::
  "externals \<Rightarrow> bool \<Rightarrow> airplane \<Rightarrow> vec3 \<Rightarrow> vec3 \<Rightarrow> vec3" where
  "legacy_wake_vertex_velocity X prescribed_wake a freestream vertex =
     (if prescribed_wake then freestream else solution_velocity X a freestream vertex)"

definition legacy_first_row :: "wing \<Rightarrow> wing \<Rightarrow> error + vec3 list" where
  "legacy_first_row this_wing next_wing =
     (let n = num_spanwise_panels this_wing;
          chordwise_position = int (num_chordwise_panels this_wing) - 1
      in
      for_each [0..<n]
        (\<lambda>spanwise_position row.
           err_bind (get2 (panels next_wing) chordwise_position (int spanwise_position))
             (\<lambda>next_panel.
                let row1 = row[spanwise_position := rv_back_left_vertex (ring_vortex next_panel)]
                in Inr (if spanwise_position + 1 = n
                        then row1[spanwise_position + 1 :=
                               rv_back_right_vertex (ring_vortex next_panel)]
                        else row1)))
        (replicate (n + 1) zeros3))"

definition legacy_second_row ::
  "externals \<Rightarrow> bool \<Rightarrow> airplane \<Rightarrow> vec3 \<Rightarrow> real \<Rightarrow> nat \<Rightarrow> vec3 array2 \<Rightarrow> error + vec3 list" where
  "legacy_second_row X prescribed_wake a freestream dt n V =
     for_each [0..<n + 1]
       (\<lambda>spanwise_vertex_position row.
          err_bind (get2 V 0 (int spanwise_vertex_position)) (\<lambda>vertex.
            set1 row spanwise_vertex_position
              (vadd vertex
                 (smul dt (legacy_wake_vertex_velocity X prescribed_wake a freestream vertex)))))
       (replicate (n + 1) zeros3)"

definition legacy_convect_vertices ::
  "externals \<Rightarrow> bool \<Rightarrow> airplane \<Rightarrow> vec3 \<Rightarrow> real \<Rightarrow> vec3 array2 \<Rightarrow> error + vec3 array2" where
  "legacy_convect_vertices X prescribed_wake a freestream dt V =
     for_each (List.product [0..<shape0 V] [0..<shape1 V])
       (\<lambda>(chordwise_vertex_position, spanwise_vertex_position) V'.
          err_bind (get2 V' (int chordwise_vertex_position) (int spanwise_vertex_position))
            (\<lambda>vertex. set2 V' (int chordwise_vertex_position) (int spanwise_vertex_position)
                         (vadd vertex
                            (smul dt (legacy_wake_vertex_velocity X prescribed_wake a
                                        freestream vertex)))))
       V"

definition legacy_populate_wing_wake_vortex_vertices ::
  "externals \<Rightarrow> bool \<Rightarrow> airplane \<Rightarrow> vec3 \<Rightarrow> real \<Rightarrow> nat \<Rightarrow> wing \<Rightarrow> wing \<Rightarrow> error + wing" where
  "legacy_populate_wing_wake_vortex_vertices X prescribed_wake a freestream dt step
       this_wing next_wing =
     (let n = num_spanwise_panels this_wing in
      if step = 0 then
        err_bind (legacy_first_row this_wing next_wing) (\<lambda>row.
        err_bind (legacy_second_row X prescribed_wake a freestream dt n
                    (row_array (n + 1) row)) (\<lambda>row2.
        err_bind (vstack (row_array (n + 1) row) (row_array (n + 1) row2)) (\<lambda>V2.
          Inr (next_wing\<lparr>wake_ring_vortex_vertices := V2\<rparr>))))
      else
        err_bind (legacy_convect_vertices X prescribed_wake a freestream dt
                    (wake_ring_vortex_vertices this_wing)) (\<lambda>V1.
        err_bind (legacy_first_row this_wing next_wing) (\<lambda>row.
        err_bind (vstack (row_array (n + 1) row) V1) (\<lambda>V2.
          Inr (next_wing\<lparr>wake_ring_vortex_vertices := V2\<rparr>)))))"

definition legacy_populate_next_airplanes_wake_vortex_vertices ::
  "externals \<Rightarrow> bool \<Rightarrow> unsteady_solver \<Rightarrow> error + unsteady_solver" where
  "legacy_populate_next_airplanes_wake_vortex_vertices X prescribed_wake S =
     err_bind (current_airplane S) (\<lambda>a.
     err_bind (current_freestream_velocity S) (\<lambda>freestream.
       for_next_wings
         (\<lambda>as wing_num this_wing next_wing.
            legacy_populate_wing_wake_vortex_vertices X prescribed_wake a freestream
              (delta_time S) (current_step S) this_wing next_wing)
         S))"

text \<open>The legacy method for the wake ring vortices is the one of the solver above.\<close>

definition legacy_populate_next_airplanes_wake ::
  "externals \<Rightarrow> bool \<Rightarrow> unsteady_solver \<Rightarrow> error + unsteady_solver" where
  "legacy_populate_next_airplanes_wake X prescribed_wake S =
     err_bind (legacy_populate_next_airplanes_wake_vortex_vertices X prescribed_wake S)
       populate_next_airplanes_wake_vortices"

section \<open>The specification's wording, and concrete data\<close>

text \<open>
  The effective circulations as the specification words them: every one of the three
  legs carries the panel's strength minus that of the neighbour sharing the leg, or the
  full strength on the wing's boundary.
\<close>

definition spec_bound_vortex_strengths ::
  "wing \<Rightarrow> nat \<Rightarrow> nat \<Rightarrow> panel \<Rightarrow> error + (real option \<times> real option \<times> real option)" where
  "spec_bound_vortex_strengths w c s p =
     err_bind
       (if s + 1 = num_spanwise_panels w then Inr (strength (ring_vortex p))
        else err_bind (get2 (panels w) (int c) (int s + 1))
               (\<lambda>q. py_sub (strength (ring_vortex p)) (strength (ring_vortex q))))
       (\<lambda>right.
     err_bind
       (if is_leading_edge p then Inr (strength (ring_vortex p))
        else err_bind (get2 (panels w) (int c - 1) (int s))
               (\<lambda>q. py_sub (strength (ring_vortex p)) (strength (ring_vortex q))))
       (\<lambda>front.
     err_bind
       (if s = 0 then Inr (strength (ring_vortex p))
        else err_bind (get2 (panels w) (int c) (int s - 1))
               (\<lambda>q. py_sub (strength (ring_vortex p)) (strength (ring_vortex q))))
       (\<lambda>left. Inr (right, front, left))))"

text \<open>
  Unit-square panels in the plane \<open>z = 0\<close>: the panel at chordwise index \<open>c\<close> and spanwise
  index \<open>s\<close> of a wing with \<open>n\<close> chordwise panels, with ring vortex strength \<open>g\<close>.
\<close>

definition example_ring :: "nat \<Rightarrow> nat \<Rightarrow> real option \<Rightarrow> ring_vortex" where
  "example_ring c s g =
     RingVortex (real c, real s, 0) (real c, real s + 1, 0)
       (real c + 1, real s, 0) (real c + 1, real s + 1, 0) g"

definition example_panel :: "nat \<Rightarrow> nat \<Rightarrow> nat \<Rightarrow> real option \<Rightarrow> panel" where
  "example_panel n c s g =
     \<lparr>back_left_vertex = (real c + 1, real s, 0),
      back_right_vertex = (real c + 1, real s + 1, 0),
      collocation_point = (real c + 3 / 4, real s + 1 / 2, 0),
      normal_direction = (0, 0, 1), area = 1,
      is_leading_edge = (c = 0), is_trailing_edge = (c + 1 = n),
      ring_vortex = example_ring c s g, horseshoe_vortex = None,
      near_field_force_geometry_axes = zeros3, near_field_moment_geometry_axes = zeros3\<rparr>"

definition example_wing :: "panel list list \<Rightarrow> wing" where
  "example_wing rs =
     (let n = (case rs of [] \<Rightarrow> 0 | r # _ \<Rightarrow> length r) in
      \<lparr>num_chordwise_panels = length rs, num_spanwise_panels = n,
       panels = \<lparr>shape1 = n, rows = rs\<rparr>,
       wake_ring_vortex_vertices = \<lparr>shape1 = n + 1, rows = []\<rparr>,
       wake_ring_vortices = \<lparr>shape1 = n, rows = []\<rparr>,
       streamline_points = \<lparr>shape1 = n, rows = []\<rparr>\<rparr>)"

text \<open>A wing of two by two panels with strengths 1, 3 (leading row) and 4, 9.\<close>

definition example_wing_2x2 :: wing where
  "example_wing_2x2 =
     example_wing
       [[example_panel 2 0 0 (Some 1), example_panel 2 0 1 (Some 3)],
        [example_panel 2 1 0 (Some 4), example_panel 2 1 1 (Some 9)]]"

text \<open>
  A stand-in for numpy's dense solver on systems of one equation: the quotient, and
  numpy's LinAlgError when the matrix is singular (or the system has another shape).
\<close>

definition example_solve :: "real array2 \<Rightarrow> real list \<Rightarrow> error + real list" where
  "example_solve A b =
     (case rows A of
        [[a]] \<Rightarrow> (case b of [c] \<Rightarrow> if a = 0 then Inl LinAlgError else Inr [c / a]
                  | _ \<Rightarrow> Inl LinAlgError)
      | _ \<Rightarrow> Inl LinAlgError)"

text \<open>
  Stand-ins for the absent collaborators: every ring vortex induces the velocity
  \<open>(0, 0, x + 2y)\<close> at the point \<open>(x, y, z)\<close>, horseshoe vortices induce none, and
  nothing flaps.
\<close>

definition example_externals :: externals where
  "example_externals =
     \<lparr>ring_induced_velocity = (\<lambda>rv (x, y, z). (0, 0, x + 2 * y)),
      ring_normalized_induced_velocity = (\<lambda>rv (x, y, z). (0, 0, x + 2 * y)),
      horseshoe_induced_velocity = (\<lambda>h q. zeros3),
      horseshoe_normalized_induced_velocity = (\<lambda>h q. zeros3),
      get_flapping_velocity_at_point_on_panel = (\<lambda>as wing_num c s point_name step. zeros3),
      ring_center = (\<lambda>rv. front_left_vertex rv),
      linalg_solve = example_solve\<rparr>"

definition example_operating_point :: operating_point where
  "example_operating_point = \<lparr>density = 1, freestream_velocity_geometry_axes = (1, 0, 0)\<rparr>"

definition example_wing_1x1 :: "real option \<Rightarrow> wing" where
  "example_wing_1x1 g = example_wing [[example_panel 1 0 0 g]]"

definition example_airplane :: "real option \<Rightarrow> airplane" where
  "example_airplane g = \<lparr>wings = [example_wing_1x1 g], xyz_ref = zeros3, num_panels = 1\<rparr>"

definition example_steady_solver :: steady_solver where
  "example_steady_solver =
     \<lparr>st_airplane = example_airplane (Some 1), st_operating_point = example_operating_point,
      aerodynamic_influence_coefficients = \<lparr>shape1 = 1, rows = [[2]]\<rparr>,
      freestream_influences = [- 2], vortex_strengths = [1]\<rparr>"

definition example_airplanes :: "airplane list" where
  "example_airplanes = [example_airplane (Some 1), example_airplane (Some 3)]"









text \<open>
  An unsteady solver at step 0 of two, on the one-panel wing, with the influence
  coefficient given and freestream influence 4.
\<close>

definition example_unsteady_solver :: "real \<Rightarrow> unsteady_solver" where
  "example_unsteady_solver aic =
     \<lparr>airplanes = [example_airplane None, example_airplane None],
      operating_points = [example_operating_point, example_operating_point],
      num_steps = 2, delta_time = 1, current_step = 0,
      current_wing_wing_influences = \<lparr>shape1 = 1, rows = [[aic]]\<rparr>,
      current_freestream_wing_influences = [4],
      current_wake_wing_influences = [0],
      current_vortex_strengths = []\<rparr>"

definition example_singular_steady_solver :: steady_solver where
  "example_singular_steady_solver =
     example_steady_solver\<lparr>aerodynamic_influence_coefficients := \<lparr>shape1 = 1, rows = [[0]]\<rparr>\<rparr>"





text \<open>
  What the streamline method leaves on a wing, in the specification's words: only the
  streamline points differ; they form \<open>n + 1\<close> rows, one column per spanwise position;
  the first row holds the seed points of the trailing-edge panels and every further row
  is a forward Euler step from the row before.
\<close>

definition euler_streamlines ::
  "(vec3 \<Rightarrow> vec3) \<Rightarrow> (panel \<Rightarrow> vec3) \<Rightarrow> nat \<Rightarrow> real \<Rightarrow> wing \<Rightarrow> wing \<Rightarrow> bool" where
  "euler_streamlines velocity seed_point n dt w w' \<longleftrightarrow>
     w' = w\<lparr>streamline_points := streamline_points w'\<rparr>
     \<and> shape0 (streamline_points w') = n + 1
     \<and> shape1 (streamline_points w') = num_spanwise_panels w
     \<and> rectangular (streamline_points w')
     \<and> (\<forall>sp<num_spanwise_panels w. \<exists>p.
           get2 (panels w) (int (num_chordwise_panels w) - 1) (int sp) = Inr p
         \<and> rows (streamline_points w') ! 0 ! sp = seed_point p
         \<and> (\<forall>k<n. rows (streamline_points w') ! Suc k ! sp =
               vadd (rows (streamline_points w') ! k ! sp)
                 (smul dt (velocity (rows (streamline_points w') ! k ! sp)))))"

text \<open>Two arrays of one shape: as many columns, and rows of the same lengths.\<close>

definition same_shape :: "'a array2 \<Rightarrow> 'a array2 \<Rightarrow> bool" where
  "same_shape A B \<longleftrightarrow> shape1 A = shape1 B \<and> map length (rows A) = map length (rows B)"


text \<open>
  Notions for the wake: what of a wing the wake methods read and write, the strength of
  the trailing-edge panel at a spanwise position, and what one step leaves of the wake.
\<close>

definition wake_of :: "wing \<Rightarrow> vec3 array2 \<times> ring_vortex option array2 \<times> nat \<times> nat" where
  "wake_of w = (wake_ring_vortex_vertices w, wake_ring_vortices w,
                num_chordwise_panels w, num_spanwise_panels w)"

definition same_wakes :: "airplane \<Rightarrow> airplane \<Rightarrow> bool" where
  "same_wakes a b \<longleftrightarrow> map wake_of (wings a) = map wake_of (wings b)"

definition trailing_edge_strength :: "wing \<Rightarrow> nat \<Rightarrow> real option" where
  "trailing_edge_strength w c =
     (case get2 (panels w) (int (num_chordwise_panels w) - 1) (int c) of
        Inr p \<Rightarrow> strength (ring_vortex p)
      | Inl e \<Rightarrow> None)"

text \<open>What a phase of a step leaves alone.\<close>

definition same_frame :: "unsteady_solver \<Rightarrow> unsteady_solver \<Rightarrow> bool" where
  "same_frame S' S \<longleftrightarrow>
     num_steps S' = num_steps S \<and> current_step S' = current_step S
     \<and> delta_time S' = delta_time S \<and> operating_points S' = operating_points S"

definition shed_cell ::
  "wing \<Rightarrow> nat \<Rightarrow> nat \<Rightarrow> nat \<times> nat \<Rightarrow> ring_vortex option \<Rightarrow> ring_vortex option \<Rightarrow> bool" where
  "shed_cell tw ncv nsv x old new \<longleftrightarrow>
     (fst x = 0 \<and> snd x + 1 < nsv \<and> 1 < ncv \<longrightarrow>
        (\<exists>rv. new = Some rv \<and> strength rv = trailing_edge_strength tw (snd x)))
   \<and> (fst x > 0 \<longrightarrow> map_option strength new = map_option strength old)"

definition layout :: "airplane \<Rightarrow> nat list" where
  "layout a = map num_spanwise_panels (wings a)"

definition wake_shed :: "nat \<Rightarrow> wing \<Rightarrow> wing \<Rightarrow> wing \<Rightarrow> bool" where
  "wake_shed step tw nw nw' \<longleftrightarrow>
     num_spanwise_panels nw' = num_spanwise_panels nw
   \<and> shape1 (wake_ring_vortex_vertices nw') = num_spanwise_panels tw + 1
   \<and> map length (rows (wake_ring_vortex_vertices nw')) =
       (if step = 0
        then map length (rows (wake_ring_vortex_vertices nw))
               @ [num_spanwise_panels tw + 1, num_spanwise_panels tw + 1]
        else (num_spanwise_panels tw + 1) # map length (rows (wake_ring_vortex_vertices tw)))
   \<and> shape1 (wake_ring_vortices tw) = num_spanwise_panels tw
   \<and> shape1 (wake_ring_vortices nw') = num_spanwise_panels tw
   \<and> map length (rows (wake_ring_vortices nw'))
       = num_spanwise_panels tw # map length (rows (wake_ring_vortices tw))
   \<and> (\<forall>c<num_spanwise_panels tw. 1 < shape0 (wake_ring_vortex_vertices nw') \<longrightarrow>
         (\<exists>rv. rows (wake_ring_vortices nw') ! 0 ! c = Some rv
             \<and> strength rv = trailing_edge_strength tw c))
   \<and> (\<forall>r c. map_option strength (rows (wake_ring_vortices nw') ! Suc r ! c)
            = map_option strength (rows (wake_ring_vortices tw) ! r ! c))"

text \<open>What one wake population does to the solver.\<close>

definition wake_populated :: "unsteady_solver \<Rightarrow> unsteady_solver \<Rightarrow> bool" where
  "wake_populated S S' \<longleftrightarrow>
     same_frame S' S \<and> current_step S < length (airplanes S)
   \<and> (if current_step S + 1 < num_steps S then
        Suc (current_step S) < length (airplanes S)
        \<and> (\<exists>next'. airplanes S' = (airplanes S)[Suc (current_step S) := next']
             \<and> length (wings next') = length (wings (airplanes S ! Suc (current_step S)))
             \<and> (\<forall>i<length (wings (airplanes S ! current_step S)).
                   i < length (wings (airplanes S ! Suc (current_step S)))
                 \<and> wake_shed (current_step S) (wings (airplanes S ! current_step S) ! i)
                      (wings (airplanes S ! Suc (current_step S)) ! i) (wings next' ! i))
             \<and> (\<forall>i\<ge>length (wings (airplanes S ! current_step S)).
                   wings next' ! i = wings (airplanes S ! Suc (current_step S)) ! i))
      else S' = S)"

definition step_effect :: "nat \<Rightarrow> unsteady_solver \<Rightarrow> unsteady_solver \<Rightarrow> bool" where
  "step_effect n S S' \<longleftrightarrow>
     num_steps S' = num_steps S \<and> n < length (airplanes S)
   \<and> (\<forall>j. j \<noteq> n \<and> j \<noteq> Suc n \<longrightarrow> airplanes S' ! j = airplanes S ! j)
   \<and> (\<forall>j. layout (airplanes S' ! j) = layout (airplanes S ! j))
   \<and> same_wakes (airplanes S' ! n) (airplanes S ! n)
   \<and> (if Suc n < num_steps S then
        (\<forall>i<length (wings (airplanes S' ! n)).
            i < length (wings (airplanes S ! Suc n))
          \<and> wake_shed n (wings (airplanes S' ! n) ! i) (wings (airplanes S ! Suc n) ! i)
               (wings (airplanes S' ! Suc n) ! i))
      else airplanes S' ! Suc n = airplanes S ! Suc n)"

text \<open>
  The wake grids of a wing of pose \<open>j\<close>: \<open>j\<close> new rows of ring vortices above those the
  first pose started with, and as many rows of vertices above those the second pose
  started with, and the two rows the first step adds below them.
\<close>

definition grid_ok ::
  "nat \<Rightarrow> nat \<Rightarrow> vec3 array2 \<Rightarrow> ring_vortex option array2 \<Rightarrow> wing \<Rightarrow> bool" where
  "grid_ok j m V0 R0 w \<longleftrightarrow>
     shape1 (wake_ring_vortex_vertices w) = m + 1
   \<and> map length (rows (wake_ring_vortex_vertices w))
       = replicate (j - 1) (m + 1) @ map length (rows V0) @ [m + 1, m + 1]
   \<and> shape1 (wake_ring_vortices w) = m
   \<and> map length (rows (wake_ring_vortices w)) = replicate j m @ map length (rows R0)"

definition wake_invariant :: "nat \<Rightarrow> unsteady_solver \<Rightarrow> unsteady_solver \<Rightarrow> bool" where
  "wake_invariant n S S' \<longleftrightarrow>
     num_steps S' = num_steps S
   \<and> (\<forall>j. layout (airplanes S' ! j) = layout (airplanes S ! j))
   \<and> (\<forall>j. j = 0 \<or> n < j \<longrightarrow> same_wakes (airplanes S' ! j) (airplanes S ! j))
   \<and> (\<forall>j i. 1 \<le> j \<and> j \<le> n \<and> j < num_steps S \<and> i < length (wings (airplanes S ! 0)) \<longrightarrow>
         i < length (wings (airplanes S' ! j))
       \<and> grid_ok j (num_spanwise_panels (wings (airplanes S ! 0) ! i))
           (wake_ring_vortex_vertices (wings (airplanes S ! 1) ! i))
           (wake_ring_vortices (wings (airplanes S ! 0) ! i))
           (wings (airplanes S' ! j) ! i)
       \<and> (\<forall>m<j. \<forall>c<num_spanwise_panels (wings (airplanes S' ! m) ! i).
             \<exists>rv. rows (wake_ring_vortices (wings (airplanes S' ! j) ! i)) ! (j - 1 - m) ! c
                     = Some rv
                 \<and> strength rv = trailing_edge_strength (wings (airplanes S' ! m) ! i) c))"

definition example_three_pose_solver :: unsteady_solver where
  "example_three_pose_solver =
     \<lparr>airplanes = [example_airplane None, example_airplane None, example_airplane None],
      operating_points = [example_operating_point, example_operating_point,
                          example_operating_point],
      num_steps = 3, delta_time = 1, current_step = 0,
      current_wing_wing_influences = \<lparr>shape1 = 0, rows = []\<rparr>,
      current_freestream_wing_influences = [],
      current_wake_wing_influences = [],
      current_vortex_strengths = []\<rparr>"

section \<open>Properties\<close>

subsection \<open>Errors and arrays\<close>

lemma err_bind_Inr_iff: "err_bind m f = Inr y \<longleftrightarrow> (\<exists>x. m = Inr x \<and> f x = Inr y)"
  by (cases m) (auto simp: err_bind_def)

lemma err_bind_Inr [simp]: "err_bind (Inr x) f = f x"
  by (simp add: err_bind_def)

lemma err_bind_Inl [simp]: "err_bind (Inl e) f = Inl e"
  by (simp add: err_bind_def)

lemma py_sub_Inr:
  "py_sub a b = Inr r \<Longrightarrow> \<exists>x y. a = Some x \<and> b = Some y \<and> r = Some (x - y)"
  by (auto simp: py_sub_def split: option.splits)

lemmas example_defs =
  example_wing_2x2_def example_wing_def example_panel_def example_ring_def RingVortex_def
  get2_def get1_def norm_index_def shape0_def py_sub_def Let_def

subsection \<open>Effective circulation of the bound legs\<close>

text \<open>
  C6, as stated, fails: for the panel at (0, 0) of the two by two wing, whose right leg is
  shared with the panel at (0, 1), the solvers take 0 as the right leg's circulation,
  where the specification's wording gives 1 - 3.
\<close>

theorem C6_right_leg_counterexample:
  "bound_vortex_strengths example_wing_2x2 0 0 (example_panel 2 0 0 (Some 1))
     = Inr (Some 0, Some 1, Some 1)
   \<and> spec_bound_vortex_strengths example_wing_2x2 0 0 (example_panel 2 0 0 (Some 1))
     = Inr (Some (- 2), Some 1, Some 1)"
  by (simp add: bound_vortex_strengths_def spec_bound_vortex_strengths_def example_defs)

text \<open>
  C6, amended: the right leg carries the panel's full strength on the wing's right edge
  and exactly zero elsewhere (a shared spanwise leg is counted once, as the left leg of
  the right-hand neighbour); the front leg carries the full strength on a leading-edge
  panel and otherwise the panel's strength minus that of the panel in front of it; the
  left leg carries the full strength on the left edge and otherwise the panel's strength
  minus that of the panel to its left. A leg of circulation zero is skipped without an
  error: the unsteady solver leaves the panel as it is, the steady ring solver assigns
  no force to the leg.
\<close>

theorem C6_effective_circulation:
  assumes "bound_vortex_strengths w c s p = Inr (right, front, left)"
  shows "right = (if s + 1 = num_spanwise_panels w then strength (ring_vortex p) else Some 0)
     \<and> (if is_leading_edge p then front = strength (ring_vortex p)
        else \<exists>q g gq. get2 (panels w) (int c - 1) (int s) = Inr q
               \<and> strength (ring_vortex p) = Some g \<and> strength (ring_vortex q) = Some gq
               \<and> front = Some (g - gq))
     \<and> (if s = 0 then left = strength (ring_vortex p)
        else \<exists>q g gq. get2 (panels w) (int c) (int s - 1) = Inr q
               \<and> strength (ring_vortex p) = Some g \<and> strength (ring_vortex q) = Some gq
               \<and> left = Some (g - gq))
     \<and> unsteady_leg X as step a opp wing_num c s (Some 0) point point_name leg p' = Inr p'
     \<and> steady_ring_leg X S (Some 0) point leg = Inr None"
  using assms
  by (auto simp: bound_vortex_strengths_def Let_def err_bind_Inr_iff unsteady_leg_def
        steady_ring_leg_def split: if_splits dest!: py_sub_Inr)

theorem C6_effective_circulation_witness:
  "bound_vortex_strengths example_wing_2x2 1 1 (example_panel 2 1 1 (Some 9))
     = Inr (Some 9, Some 6, Some 5)
   \<and> get2 (panels example_wing_2x2) 0 1 = Inr (example_panel 2 0 1 (Some 3))
   \<and> get2 (panels example_wing_2x2) 1 0 = Inr (example_panel 2 1 0 (Some 4))"
proof -
  have h: "bound_vortex_strengths example_wing_2x2 1 1 (example_panel 2 1 1 (Some 9))
     = Inr (Some 9, Some 6, Some 5)"
    by (simp add: bound_vortex_strengths_def example_defs)
  show ?thesis
    using h C6_effective_circulation [OF h]
    by (simp add: example_defs)
qed

lemmas example_solver_defs =
  example_steady_solver_def example_airplanes_def example_airplane_def example_wing_1x1_def
  example_operating_point_def example_externals_def

lemmas velocity_defs =
  solution_velocity_def steady_solution_velocity_def wake_velocity_def panels_velocity_def
  ravel_def calculate_induced_velocity_def center_def vector_def right_leg_def front_leg_def
  left_leg_def back_leg_def zeros3_def

subsection \<open>Kutta-Joukowski force of a bound leg\<close>

text \<open>
  In the unsteady solver a leg of nonzero circulation adds to the panel's force the
  density times the circulation times the cross product of the velocity at the leg's
  own center (solution velocity plus the flapping velocity the movement reports under
  the leg's name) with the leg's vector, and to the moment the cross product of the
  center's offset from the reference point with that force.
\<close>

lemma unsteady_leg_at_midpoint:
  assumes "g \<noteq> Some 0"
    and "unsteady_leg X as step a opp wing_num c s g (center leg) point_name leg p = Inr p'"
  shows "\<exists>gamma. g = Some gamma
     \<and> near_field_force_geometry_axes p' =
         vadd (near_field_force_geometry_axes p)
           (smul (density opp * gamma)
              (cross (vadd (solution_velocity X a (freestream_velocity_geometry_axes opp) (center leg))
                        (get_flapping_velocity_at_point_on_panel X as wing_num (int c) s point_name step))
                 (vector leg)))
     \<and> near_field_moment_geometry_axes p' =
         vadd (near_field_moment_geometry_axes p)
           (cross (vsub (center leg) (xyz_ref a))
              (smul (density opp * gamma)
                 (cross (vadd (solution_velocity X a (freestream_velocity_geometry_axes opp) (center leg))
                        (get_flapping_velocity_at_point_on_panel X as wing_num (int c) s point_name step))
                 (vector leg))))"
  using assms
  by (auto simp: unsteady_leg_def Let_def err_bind_Inr_iff bound_leg_force_def
        add_force_and_moment_def split: option.splits)

text \<open>
  C1 fails in the steady ring solver: on the one-panel wing with strength 1, density 1
  and freestream \<open>(1, 0, 0)\<close>, the forces assigned to the front and the left leg use the
  velocity at the center of the right leg, \<open>(1, 0, 5/2)\<close>. With the velocity at the front
  leg's own center, \<open>(1, 0, 1)\<close>, the front leg's force would be \<open>(1, 0, -1)\<close>; the solver
  assigns \<open>(5/2, 0, -1)\<close>.
\<close>

theorem C1_steady_ring_front_leg_uses_right_leg_center:
  "steady_ring_panel_forces example_externals example_steady_solver
       (example_wing_1x1 (Some 1)) 0 0
     = Inr (Some (0, - 5 / 2, 0), Some (5 / 2, 0, - 1), Some (0, 5 / 2, 0))
   \<and> bound_leg_force 1 (Some 1)
       (steady_solution_velocity example_externals example_steady_solver
          (center (front_leg (example_ring 0 0 (Some 1)))))
       (front_leg (example_ring 0 0 (Some 1))) = Inr (1, 0, - 1)"
  by (simp add: steady_ring_panel_forces_def bound_vortex_strengths_def steady_ring_leg_def
        bound_leg_force_def velocity_defs example_solver_defs example_defs)

subsection \<open>The unsteady force\<close>

lemma vadd_zero_smul [simp]: "vadd v (smul 0 n) = v"
  by (cases v; cases n) simp



subsection \<open>Vortex strengths\<close>

lemma map_indexed_Inr:
  "map_indexed f i xs = Inr ys \<Longrightarrow>
     length ys = length xs \<and> (\<forall>k<length xs. f (i + k) (xs ! k) = Inr (ys ! k))"
proof (induction xs arbitrary: i ys)
  case Nil
  then show ?case by simp
next
  case (Cons x xs)
  from Cons.prems obtain y ys' where y: "f i x = Inr y"
    and r: "map_indexed f (Suc i) xs = Inr ys'" and e: "ys = y # ys'"
    by (auto simp: err_bind_Inr_iff)
  from Cons.IH [OF r] have l: "length ys' = length xs"
    and k: "\<forall>k<length xs. f (Suc i + k) (xs ! k) = Inr (ys' ! k)" by auto
  show ?case
  proof (intro conjI allI impI)
    show "length ys = length (x # xs)" using l e by simp
  next
    fix k assume "k < length (x # xs)"
    then show "f (i + k) ((x # xs) ! k) = Inr (ys ! k)"
      using y k e by (cases k) auto
  qed
qed


lemma map_indexed_Inl: "map_indexed f i xs = Inl e \<Longrightarrow> \<exists>j x. f j x = Inl e"
  by (induction xs arbitrary: i) (auto simp: err_bind_def split: sum.splits)

lemma map_rows_Inl: "map_rows f i rs = Inl e \<Longrightarrow> \<exists>j x. f j x = Inl e"
  by (induction rs arbitrary: i) (auto simp: err_bind_def split: sum.splits dest: map_indexed_Inl)

lemma update_airplane_strengths_Inl:
  "update_airplane_strengths f a = Inl e \<Longrightarrow> \<exists>j x. f j x = Inl e"
  by (auto simp: update_airplane_strengths_def update_wing_strengths_def err_bind_def
      split: sum.splits dest!: map_indexed_Inl map_rows_Inl)

lemma ring_panel_update_strength_Inl:
  "ring_panel_update_strength G j p = Inl e \<Longrightarrow> e = IndexError"
  by (auto simp: ring_panel_update_strength_def get1_def err_bind_def split: if_splits)

lemma horseshoe_panel_update_strength_Inl:
  "horseshoe_panel_update_strength G j p = Inl e \<Longrightarrow> e = IndexError \<or> e = AttributeError"
  by (auto simp: horseshoe_panel_update_strength_def get1_def err_bind_def split: if_splits option.splits)





lemmas strength_defs =
  calculate_vortex_strengths_def steady_ring_calculate_vortex_strengths_def
  steady_horseshoe_calculate_vortex_strengths_def right_hand_side_def
  update_airplane_strengths_def update_wing_strengths_def ring_panel_update_strength_def
  horseshoe_panel_update_strength_def update_strength_def hs_update_strength_def
  current_airplane_def example_solve_def


subsection \<open>Indexing of the influence vectors\<close>


lemma set1_Inr: "set1 v i x = Inr v' \<longleftrightarrow> i < length v \<and> v' = v[i := x]"
  by (auto simp: set1_def)









lemmas influence_defs =
  calculate_freestream_wing_influences_def calculate_wake_wing_influences_def
  influence_vector_def wing_influence_loop_def freestream_influence_def wake_influence_def
  current_airplane_def current_freestream_velocity_def current_operating_point_def set1_def


lemma div_mod_index:
  "s < n \<Longrightarrow> (c * n + s) div n = c \<and> (c * n + s) mod n = (s::nat)"
  by simp




subsection \<open>Loops over arrays\<close>

lemma for_each_append:
  "for_each (xs @ ys) body s = err_bind (for_each xs body s) (for_each ys body)"
  by (induction xs arbitrary: s) (auto simp: err_bind_def split: sum.splits)

lemma for_each_single [simp]: "for_each [x] body s = body x s"
  by (cases "body x s") simp_all

lemma for_each_snoc:
  "for_each (xs @ [x]) body s = err_bind (for_each xs body s) (body x)"
  by (induction xs arbitrary: s) (auto simp: err_bind_def split: sum.splits)

lemma for_each_invariant:
  assumes "for_each xs body s = Inr s'" and "P s"
    and "\<And>x t t'. x \<in> set xs \<Longrightarrow> P t \<Longrightarrow> body x t = Inr t' \<Longrightarrow> P t'"
  shows "P s'"
  using assms
proof (induction xs arbitrary: s)
  case Nil
  then show ?case by simp
next
  case (Cons x xs)
  from Cons.prems(1) obtain t where t: "body x s = Inr t" and r: "for_each xs body t = Inr s'"
    by (auto split: sum.splits)
  have "P t" using Cons.prems(2,3) t by auto
  then show ?case using Cons.IH [OF r] Cons.prems(3) by auto
qed

lemma for_each_upt_invariant:
  assumes "for_each [0..<n] body s = Inr s'" and "P 0 s"
    and "\<And>i t t'. i < n \<Longrightarrow> P i t \<Longrightarrow> body i t = Inr t' \<Longrightarrow> P (Suc i) t'"
  shows "P n s'"
  using assms
proof (induction n arbitrary: s')
  case 0
  then show ?case by simp
next
  case (Suc n)
  from Suc.prems(1) obtain t where t: "for_each [0..<n] body s = Inr t"
    and r: "body n t = Inr s'"
    by (auto simp: for_each_snoc err_bind_Inr_iff)
  have "P n t" using Suc.IH [OF t Suc.prems(2)] Suc.prems(3) by auto
  then show ?case using Suc.prems(3) [of n t s'] r by simp
qed

lemma same_shape_refl [simp]: "same_shape A A"
  by (simp add: same_shape_def)

lemma same_shape_trans: "same_shape A B \<Longrightarrow> same_shape B C \<Longrightarrow> same_shape A C"
  by (simp add: same_shape_def)

lemma same_shape_facts:
  "same_shape A B \<Longrightarrow> shape0 A = shape0 B \<and> shape1 A = shape1 B
     \<and> (rectangular B \<longrightarrow> rectangular A)"
  by (auto simp: same_shape_def shape0_def rectangular_def list_all_length
      dest: map_eq_imp_length_eq) (metis length_map nth_map)

lemma norm_index_nat [simp]: "norm_index n (int i) = (if i < n then Inr i else Inl IndexError)"
  by (simp add: norm_index_def)

lemma norm_index_Suc [simp]:
  "norm_index n (int i + 1) = (if Suc i < n then Inr (Suc i) else Inl IndexError)"
  by (auto simp: norm_index_def)

lemma set2_nat_Inr:
  "set2 A (int i) (int j) v = Inr B \<longleftrightarrow>
     i < shape0 A \<and> j < shape1 A \<and> j < length (rows A ! i)
     \<and> B = A\<lparr>rows := (rows A)[i := (rows A ! i)[j := v]]\<rparr>"
  by (auto simp: set2_def)

lemma set2_same_shape: "set2 A i j v = Inr B \<Longrightarrow> same_shape B A"
  by (auto simp: set2_def err_bind_Inr_iff same_shape_def map_update split: if_splits)
     (metis list_update_id map_update)

subsection \<open>Streamlines\<close>

lemma nth_update2:
  "i < length rs \<Longrightarrow> j < length (rs ! i) \<Longrightarrow>
     (rs[i := (rs ! i)[j := v]]) ! r ! c = (if r = i \<and> c = j then v else rs ! r ! c)"
  by (cases "r = i"; cases "c = j") auto

lemma get2_nat_Inr:
  "get2 A (int i) (int j) = Inr x \<longleftrightarrow>
     i < shape0 A \<and> j < shape1 A \<and> j < length (rows A ! i) \<and> x = rows A ! i ! j"
  by (auto simp: get2_def)

lemma get2_Suc_Inr:
  "get2 A (int i + 1) (int j) = Inr x \<longleftrightarrow>
     Suc i < shape0 A \<and> j < shape1 A \<and> j < length (rows A ! Suc i) \<and> x = rows A ! Suc i ! j"
  by (auto simp: get2_def)

lemma set2_Suc_Inr:
  "set2 A (int i + 1) (int j) v = Inr B \<longleftrightarrow>
     Suc i < shape0 A \<and> j < shape1 A \<and> j < length (rows A ! Suc i)
     \<and> B = A\<lparr>rows := (rows A)[Suc i := (rows A ! Suc i)[j := v]]\<rparr>"
  by (auto simp: set2_def)

lemma set2_zero_Inr:
  "set2 A 0 (int j) v = Inr B \<longleftrightarrow>
     0 < shape0 A \<and> j < shape1 A \<and> j < length (rows A ! 0)
     \<and> B = A\<lparr>rows := (rows A)[0 := (rows A ! 0)[j := v]]\<rparr>"
  using set2_nat_Inr [of A 0 j v B] by simp

lemma streamline_column:
  assumes loop: "for_each [0..<n]
        (\<lambda>step P'. err_bind (get2 P' (int step) (int j)) (\<lambda>last_point.
           set2 P' (int step + 1) (int j) (vadd last_point (smul dt (velocity last_point)))))
        P0 = Inr P'"
  shows "same_shape P' P0
     \<and> (\<forall>r c. c \<noteq> j \<longrightarrow> rows P' ! r ! c = rows P0 ! r ! c)
     \<and> rows P' ! 0 ! j = rows P0 ! 0 ! j
     \<and> (\<forall>k<n. rows P' ! Suc k ! j =
           vadd (rows P' ! k ! j) (smul dt (velocity (rows P' ! k ! j))))"
proof -
  let ?R = "\<lambda>i T. same_shape T P0
     \<and> (\<forall>r c. c \<noteq> j \<longrightarrow> rows T ! r ! c = rows P0 ! r ! c)
     \<and> rows T ! 0 ! j = rows P0 ! 0 ! j
     \<and> (\<forall>k<i. rows T ! Suc k ! j = vadd (rows T ! k ! j) (smul dt (velocity (rows T ! k ! j))))"
  have "?R n P'"
  proof (rule for_each_upt_invariant [OF loop, where P = ?R])
    show "?R 0 P0" by simp
  next
    fix i T T'
    assume i: "i < n" and R: "?R i T"
      and b: "err_bind (get2 T (int i) (int j)) (\<lambda>last_point.
           set2 T (int i + 1) (int j) (vadd last_point (smul dt (velocity last_point)))) = Inr T'"
    let ?v = "vadd (rows T ! i ! j) (smul dt (velocity (rows T ! i ! j)))"
    from b have r1: "Suc i < length (rows T)" and r2: "j < length (rows T ! Suc i)"
      and T': "T' = T\<lparr>rows := (rows T)[Suc i := (rows T ! Suc i)[j := ?v]]\<rparr>"
      by (auto simp: err_bind_Inr_iff get2_nat_Inr set2_Suc_Inr shape0_def)
    have n: "rows T' ! r ! c = (if r = Suc i \<and> c = j then ?v else rows T ! r ! c)" for r c
      using nth_update2 [OF r1 r2] by (simp add: T')
    have s: "same_shape T' T"
      using b by (auto simp: err_bind_Inr_iff intro: set2_same_shape)
    show "?R (Suc i) T'"
    proof (intro conjI allI impI)
      show "same_shape T' P0" using s R same_shape_trans by blast
    next
      fix r c assume "c \<noteq> j"
      then show "rows T' ! r ! c = rows P0 ! r ! c" using n R by simp
    next
      show "rows T' ! 0 ! j = rows P0 ! 0 ! j" using n R by simp
    next
      fix k assume k: "k < Suc i"
      show "rows T' ! Suc k ! j = vadd (rows T' ! k ! j) (smul dt (velocity (rows T' ! k ! j)))"
      proof (cases "k = i")
        case True
        then show ?thesis using n by simp
      next
        case False
        then have "k < i" using k by simp
        then show ?thesis using n R by simp
      qed
    qed
  qed
  then show ?thesis by blast
qed


lemma wing_streamlines_euler:
  assumes "wing_streamlines velocity seed_point n dt w = Inr w'"
  shows "euler_streamlines velocity seed_point n dt w w'"
proof -
  define m where "m = num_spanwise_panels w"
  define cp where "cp = int (num_chordwise_panels w) - 1"
  define Z :: "vec3 array2" where "Z = \<lparr>shape1 = m, rows = replicate (n + 1) (replicate m zeros3)\<rparr>"
  define stp where "stp = (\<lambda>x. vadd x (smul dt (velocity x)))"
  define inner where "inner = (\<lambda>j step (P' :: vec3 array2). err_bind (get2 P' (int step) (int j)) (\<lambda>last_point.
           set2 P' (int step + 1) (int j) (vadd last_point (smul dt (velocity last_point)))))"
  define body where "body = (\<lambda>j (P :: vec3 array2). err_bind (get2 (panels w) cp (int j)) (\<lambda>p.
              err_bind (set2 P 0 (int j) (seed_point p)) (\<lambda>P0. for_each [0..<n] (inner j) P0)))"
  define good where "good = (\<lambda>(P :: vec3 array2) sp. \<exists>p. get2 (panels w) cp (int sp) = Inr p
         \<and> rows P ! 0 ! sp = seed_point p
         \<and> (\<forall>k<n. rows P ! Suc k ! sp = stp (rows P ! k ! sp)))"
  define Q where "Q = (\<lambda>(j :: nat) (P :: vec3 array2). same_shape P Z \<and> (\<forall>sp<j. good P sp))"
  from assms obtain P where loop: "for_each [0..<m] body Z = Inr P"
    and w': "w' = w\<lparr>streamline_points := P\<rparr>"
    unfolding wing_streamlines_def Let_def body_def inner_def Z_def m_def cp_def
    by (auto simp: err_bind_Inr_iff)
  have "Q m P"
  proof (rule for_each_upt_invariant [OF loop, where P = Q])
    show "Q 0 Z" by (simp add: Q_def)
  next
    fix j T T'
    assume j: "j < m" and Q: "Q j T" and b: "body j T = Inr T'"
    from b obtain p P0 where p: "get2 (panels w) cp (int j) = Inr p"
      and s: "set2 T 0 (int j) (seed_point p) = Inr P0"
      and l: "for_each [0..<n] (inner j) P0 = Inr T'"
      unfolding body_def by (auto simp: err_bind_Inr_iff)
    have c1: "same_shape T' P0"
      and c2: "\<And>r c. c \<noteq> j \<Longrightarrow> rows T' ! r ! c = rows P0 ! r ! c"
      and c3: "rows T' ! 0 ! j = rows P0 ! 0 ! j"
      and c4: "\<And>k. k < n \<Longrightarrow> rows T' ! Suc k ! j = stp (rows T' ! k ! j)"
      using streamline_column [OF l [unfolded inner_def]] unfolding stp_def by blast+
    from s have r1: "0 < length (rows T)" and r2: "j < length (rows T ! 0)"
      and P0: "P0 = T\<lparr>rows := (rows T)[0 := (rows T ! 0)[j := seed_point p]]\<rparr>"
      by (auto simp: set2_zero_Inr shape0_def)
    have n0: "rows P0 ! r ! c = (if r = 0 \<and> c = j then seed_point p else rows T ! r ! c)" for r c
      using nth_update2 [OF r1 r2] by (simp add: P0)
    have "same_shape T Z" using Q by (simp add: Q_def)
    then have sh: "same_shape T' Z"
      using c1 set2_same_shape [OF s] same_shape_trans by blast
    have other: "rows T' ! r ! c = rows T ! r ! c" if "c \<noteq> j" for r c
      using c2 [OF that] n0 that by simp
    have "good T' sp" if sp: "sp < Suc j" for sp
    proof (cases "sp = j")
      case True
      have "rows T' ! 0 ! j = seed_point p" using c3 n0 by simp
      then show ?thesis unfolding good_def using True p c4 by blast
    next
      case False
      then have "sp < j" using sp by simp
      with Q have "good T sp" by (simp add: Q_def)
      then obtain q where q1: "get2 (panels w) cp (int sp) = Inr q"
        and q2: "rows T ! 0 ! sp = seed_point q"
        and q3: "\<forall>k<n. rows T ! Suc k ! sp = stp (rows T ! k ! sp)"
        unfolding good_def by blast
      have "rows T' ! 0 ! sp = seed_point q" using q2 other [OF False] by simp
      moreover have "\<forall>k<n. rows T' ! Suc k ! sp = stp (rows T' ! k ! sp)"
        using q3 other [OF False] by simp
      ultimately show ?thesis unfolding good_def using q1 by blast
    qed
    then show "Q (Suc j) T'" using sh by (simp add: Q_def)
  qed
  then have sh: "same_shape P Z" and g: "\<forall>sp<m. good P sp" by (auto simp: Q_def)
  have z: "shape0 Z = n + 1 \<and> shape1 Z = m \<and> rectangular Z"
    by (simp add: Z_def shape0_def rectangular_def list_all_iff del: replicate_Suc)
  from same_shape_facts [OF sh] z have f: "shape0 P = n + 1" "shape1 P = m" "rectangular P"
    by auto
  show ?thesis
    unfolding euler_streamlines_def using g f
    by (simp add: w' good_def stp_def m_def cp_def)
qed

lemma map_err_Inr:
  "map_err f xs = Inr ys \<Longrightarrow> length ys = length xs \<and> (\<forall>i<length xs. f (xs ! i) = Inr (ys ! i))"
proof (induction xs arbitrary: ys)
  case Nil
  then show ?case by simp
next
  case (Cons x xs)
  from Cons.prems obtain y ys' where y: "f x = Inr y" and r: "map_err f xs = Inr ys'"
    and e: "ys = y # ys'"
    by (auto simp: err_bind_Inr_iff)
  from Cons.IH [OF r] have l: "length ys' = length xs"
    and k: "\<forall>i<length xs. f (xs ! i) = Inr (ys' ! i)" by auto
  show ?case
  proof (intro conjI allI impI)
    show "length ys = length (x # xs)" using l e by simp
  next
    fix i assume "i < length (x # xs)"
    then show "f ((x # xs) ! i) = Inr (ys ! i)" using y k e by (cases i) auto
  qed
qed


lemmas streamline_defs =
  calculate_streamlines_def steady_calculate_streamlines_def wing_streamlines_def
  unsteady_seed_point_def panel_back_midpoint_def set2_def
  current_airplane_def current_freestream_velocity_def current_operating_point_def

text \<open>
  C9, as stated, fails for the unsteady solver: on the one-panel wing with freestream
  \<open>(1, 0, 0)\<close> and the movement's time step 1, the first streamline point is
  \<open>(5/4, 1/2, 0)\<close>, a quarter step behind the back leg of the panel's ring vortex; the
  midpoint of the panel's back edge is \<open>(1, 1/2, 0)\<close>.
\<close>

theorem C9_unsteady_seed_counterexample:
  "calculate_streamlines example_externals 1 (1 / 10) (example_unsteady_solver 2)
     = Inr ((example_unsteady_solver 2)\<lparr>airplanes :=
         [(example_airplane None)\<lparr>wings := [(example_wing_1x1 None)\<lparr>streamline_points :=
             \<lparr>shape1 = 1, rows = [[(5 / 4, 1 / 2, 0)], [(27 / 20, 1 / 2, 9 / 40)]]\<rparr>\<rparr>]\<rparr>,
          example_airplane None]\<rparr>)
   \<and> panel_back_midpoint (example_panel 1 0 0 None) = (1, 1 / 2, 0)"
  by (simp add: streamline_defs example_unsteady_solver_def velocity_defs example_solver_defs
        example_defs)

text \<open>
  C9, amended: for every wing, the streamline method seeds one streamline per spanwise
  position, in the steady solvers at the midpoint of the trailing-edge panel's back edge
  and in the unsteady solver at the center of the back leg of the trailing-edge panel's
  ring vortex moved by a quarter of the movement's time step along the freestream; it
  advances each by forward Euler steps with the solution velocity (vortices plus
  freestream, no flapping), giving \<open>n + 1\<close> points per spanwise position whose first
  row is the seed; and it changes nothing but the wings' streamline points. The
  horseshoe solver takes 100 steps of 0.01, the unsteady run 10 steps of 0.1.
\<close>

theorem C9_streamlines:
  assumes "calculate_streamlines X n dt S = Inr S'"
    and "steady_calculate_streamlines X n' dt' T = Inr T'"
  shows "(\<exists>a freestream ws.
        current_airplane S = Inr a \<and> current_freestream_velocity S = Inr freestream
      \<and> S' = S\<lparr>airplanes := (airplanes S)[current_step S := a\<lparr>wings := ws\<rparr>]\<rparr>
      \<and> length ws = length (wings a)
      \<and> (\<forall>i<length (wings a).
            euler_streamlines (solution_velocity X a freestream)
              (unsteady_seed_point freestream (delta_time S)) n dt (wings a ! i) (ws ! i)))
    \<and> (\<exists>ws.
        T' = T\<lparr>st_airplane := (st_airplane T)\<lparr>wings := ws\<rparr>\<rparr>
      \<and> length ws = length (wings (st_airplane T))
      \<and> (\<forall>i<length (wings (st_airplane T)).
            euler_streamlines (steady_solution_velocity X T) panel_back_midpoint n' dt'
              (wings (st_airplane T) ! i) (ws ! i)))
    \<and> steady_horseshoe_calculate_streamlines X T = steady_calculate_streamlines X 100 (1 / 100) T
    \<and> run X S = err_bind (run_steps X (num_steps S) S) (calculate_streamlines X 10 (1 / 10))"
proof -
  from assms(1) obtain a freestream ws where a: "current_airplane S = Inr a"
    and f: "current_freestream_velocity S = Inr freestream"
    and m: "map_err (wing_streamlines (solution_velocity X a freestream)
                   (unsteady_seed_point freestream (delta_time S)) n dt) (wings a) = Inr ws"
    and S': "S' = S\<lparr>airplanes := (airplanes S)[current_step S := a\<lparr>wings := ws\<rparr>]\<rparr>"
    by (auto simp: calculate_streamlines_def err_bind_Inr_iff)
  from map_err_Inr [OF m] have 1: "length ws = length (wings a)"
    and 2: "\<forall>i<length (wings a).
            euler_streamlines (solution_velocity X a freestream)
              (unsteady_seed_point freestream (delta_time S)) n dt (wings a ! i) (ws ! i)"
    by (auto intro: wing_streamlines_euler)
  from assms(2) obtain vs where
    m': "map_err (wing_streamlines (steady_solution_velocity X T) panel_back_midpoint n' dt')
          (wings (st_airplane T)) = Inr vs"
    and T': "T' = T\<lparr>st_airplane := (st_airplane T)\<lparr>wings := vs\<rparr>\<rparr>"
    by (auto simp: steady_calculate_streamlines_def err_bind_Inr_iff)
  from map_err_Inr [OF m'] have 3: "length vs = length (wings (st_airplane T))"
    and 4: "\<forall>i<length (wings (st_airplane T)).
            euler_streamlines (steady_solution_velocity X T) panel_back_midpoint n' dt'
              (wings (st_airplane T) ! i) (vs ! i)"
    by (auto intro: wing_streamlines_euler)
  have 5: "steady_horseshoe_calculate_streamlines X T
      = steady_calculate_streamlines X 100 (1 / 100) T"
    by (simp add: steady_horseshoe_calculate_streamlines_def)
  have 6: "run X S = err_bind (run_steps X (num_steps S) S) (calculate_streamlines X 10 (1 / 10))"
    by (simp add: run_def)
  show ?thesis
    using a f S' 1 2 T' 3 4 5 6 by blast
qed

theorem C9_streamlines_witness:
  "calculate_streamlines example_externals 1 (1 / 10) (example_unsteady_solver 2)
     = Inr ((example_unsteady_solver 2)\<lparr>airplanes :=
         [(example_airplane None)\<lparr>wings := [(example_wing_1x1 None)\<lparr>streamline_points :=
             \<lparr>shape1 = 1, rows = [[(5 / 4, 1 / 2, 0)], [(27 / 20, 1 / 2, 9 / 40)]]\<rparr>\<rparr>]\<rparr>,
          example_airplane None]\<rparr>)
   \<and> steady_calculate_streamlines example_externals 1 (1 / 10) example_steady_solver
     = Inr (example_steady_solver\<lparr>st_airplane :=
         (example_airplane (Some 1))\<lparr>wings := [(example_wing_1x1 (Some 1))\<lparr>streamline_points :=
             \<lparr>shape1 = 1, rows = [[(1, 1 / 2, 0)], [(11 / 10, 1 / 2, 1 / 5)]]\<rparr>\<rparr>]\<rparr>\<rparr>)
   \<and> steady_horseshoe_calculate_streamlines example_externals example_steady_solver
     = steady_calculate_streamlines example_externals 100 (1 / 100) example_steady_solver"
proof -
  have 1: "calculate_streamlines example_externals 1 (1 / 10) (example_unsteady_solver 2)
     = Inr ((example_unsteady_solver 2)\<lparr>airplanes :=
         [(example_airplane None)\<lparr>wings := [(example_wing_1x1 None)\<lparr>streamline_points :=
             \<lparr>shape1 = 1, rows = [[(5 / 4, 1 / 2, 0)], [(27 / 20, 1 / 2, 9 / 40)]]\<rparr>\<rparr>]\<rparr>,
          example_airplane None]\<rparr>)"
    by (simp add: streamline_defs example_unsteady_solver_def velocity_defs example_solver_defs
          example_defs)
  have 2: "steady_calculate_streamlines example_externals 1 (1 / 10) example_steady_solver
     = Inr (example_steady_solver\<lparr>st_airplane :=
         (example_airplane (Some 1))\<lparr>wings := [(example_wing_1x1 (Some 1))\<lparr>streamline_points :=
             \<lparr>shape1 = 1, rows = [[(1, 1 / 2, 0)], [(11 / 10, 1 / 2, 1 / 5)]]\<rparr>\<rparr>]\<rparr>\<rparr>)"
    by (simp add: streamline_defs velocity_defs example_solver_defs example_defs)
  show ?thesis
    using 1 2 C9_streamlines [OF 1 2] by blast
qed

lemma for_each_pointwise:
  assumes "for_each ps
      (\<lambda>(c, s) A. err_bind (get2 A (int c) (int s)) (\<lambda>x. set2 A (int c) (int s) (h x))) V
      = Inr V'"
    and "distinct ps"
  shows "same_shape V' V
     \<and> (\<forall>c s. rows V' ! c ! s = (if (c, s) \<in> set ps then h (rows V ! c ! s) else rows V ! c ! s))"
  using assms
proof (induction ps arbitrary: V)
  case Nil
  then show ?case by simp
next
  case (Cons x ps)
  obtain c s where x: "x = (c, s)" by (cases x)
  from Cons.prems(1) obtain V1 where
    s1: "set2 V (int c) (int s) (h (rows V ! c ! s)) = Inr V1"
    and r: "for_each ps
      (\<lambda>(c, s) A. err_bind (get2 A (int c) (int s)) (\<lambda>x. set2 A (int c) (int s) (h x))) V1
      = Inr V'"
    unfolding x by (auto simp: err_bind_def get2_nat_Inr split: sum.splits)
  from s1 have r1: "c < length (rows V)" and r2: "s < length (rows V ! c)"
    and V1: "V1 = V\<lparr>rows := (rows V)[c := (rows V ! c)[s := h (rows V ! c ! s)]]\<rparr>"
    by (auto simp: set2_nat_Inr shape0_def)
  have n: "rows V1 ! c' ! s' = (if c' = c \<and> s' = s then h (rows V ! c ! s) else rows V ! c' ! s')"
    for c' s'
    using nth_update2 [OF r1 r2] by (simp add: V1)
  have d: "distinct ps" and notin: "(c, s) \<notin> set ps" using Cons.prems(2) x by auto
  from Cons.IH [OF r d] have sh: "same_shape V' V1"
    and e: "\<forall>c' s'. rows V' ! c' ! s'
        = (if (c', s') \<in> set ps then h (rows V1 ! c' ! s') else rows V1 ! c' ! s')"
    by auto
  have "same_shape V' V" using sh set2_same_shape [OF s1] same_shape_trans by blast
  moreover have "rows V' ! c' ! s'
      = (if (c', s') \<in> set (x # ps) then h (rows V ! c' ! s') else rows V ! c' ! s')" for c' s'
    using e n notin x by auto
  ultimately show ?case by blast
qed









subsection \<open>Wake population\<close>

lemma same_wakes_refl [simp]: "same_wakes a a"
  by (simp add: same_wakes_def)

lemma same_wakes_trans: "same_wakes a b \<Longrightarrow> same_wakes b c \<Longrightarrow> same_wakes a c"
  by (simp add: same_wakes_def)

lemma same_frame_refl [simp]: "same_frame S S"
  by (simp add: same_frame_def)

lemma same_frame_trans: "same_frame A B \<Longrightarrow> same_frame B C \<Longrightarrow> same_frame A C"
  by (simp add: same_frame_def)

lemma calculate_wing_wing_influences_frame:
  "calculate_wing_wing_influences X S = Inr S' \<Longrightarrow>
     airplanes S' = airplanes S \<and> same_frame S' S"
  by (auto simp: calculate_wing_wing_influences_def err_bind_Inr_iff same_frame_def)

lemma calculate_freestream_wing_influences_frame:
  "calculate_freestream_wing_influences X S = Inr S' \<Longrightarrow>
     airplanes S' = airplanes S \<and> same_frame S' S"
  by (auto simp: calculate_freestream_wing_influences_def err_bind_Inr_iff same_frame_def)

lemma calculate_wake_wing_influences_frame:
  "calculate_wake_wing_influences X S = Inr S' \<Longrightarrow>
     airplanes S' = airplanes S \<and> same_frame S' S"
  by (auto simp: calculate_wake_wing_influences_def err_bind_Inr_iff same_frame_def)

lemma update_wing_strengths_wake:
  "update_wing_strengths f w = Inr w' \<Longrightarrow> wake_of w' = wake_of w"
  by (auto simp: update_wing_strengths_def err_bind_Inr_iff wake_of_def)

lemma update_airplane_strengths_wakes:
  assumes "update_airplane_strengths f a = Inr a'"
  shows "same_wakes a' a"
proof -
  from assms obtain ws where
    ws: "map_indexed (\<lambda>i w. update_wing_strengths f w) 0 (wings a) = Inr ws"
    and a': "a' = a\<lparr>wings := ws\<rparr>"
    by (auto simp: update_airplane_strengths_def err_bind_Inr_iff)
  from map_indexed_Inr [OF ws] have len: "length ws = length (wings a)"
    and each: "\<forall>k<length (wings a). update_wing_strengths f (wings a ! k) = Inr (ws ! k)"
    by auto
  have "map wake_of ws = map wake_of (wings a)"
    using len each update_wing_strengths_wake by (auto intro!: nth_equalityI)
  then show ?thesis by (simp add: same_wakes_def a')
qed

lemma calculate_vortex_strengths_frame:
  assumes "calculate_vortex_strengths X S = Inr S'"
  shows "same_frame S' S \<and> current_step S < length (airplanes S)
     \<and> (\<exists>a'. airplanes S' = (airplanes S)[current_step S := a']
            \<and> same_wakes a' (airplanes S ! current_step S))"
proof -
  from assms obtain G a a' where a: "current_airplane S = Inr a"
    and u: "update_airplane_strengths (ring_panel_update_strength G) a = Inr a'"
    and S': "S' = S\<lparr>current_vortex_strengths := G,
                    airplanes := (airplanes S)[current_step S := a']\<rparr>"
    unfolding calculate_vortex_strengths_def err_bind_Inr_iff by blast
  from a have l: "current_step S < length (airplanes S)"
    and e: "a = airplanes S ! current_step S"
    by (auto simp: current_airplane_def get1_def split: if_splits)
  show ?thesis
    using update_airplane_strengths_wakes [OF u] l e by (auto simp: S' same_frame_def)
qed

lemma store_panel_wakes:
  assumes "store_panel a wing_num c s p = Inr a'"
  shows "same_wakes a' a"
proof -
  from assms obtain ps where l: "wing_num < length (wings a)"
    and a': "a' = a\<lparr>wings := (wings a)[wing_num := (wings a ! wing_num)\<lparr>panels := ps\<rparr>]\<rparr>"
    by (auto simp: store_panel_def err_bind_Inr_iff get1_def split: if_splits)
  have "wake_of ((wings a ! wing_num)\<lparr>panels := ps\<rparr>) = wake_of (wings a ! wing_num)"
    by (simp add: wake_of_def)
  then have "map wake_of ((wings a)[wing_num := (wings a ! wing_num)\<lparr>panels := ps\<rparr>])
      = map wake_of (wings a)"
    by (simp add: map_update list_update_same_conv l)
  then show ?thesis by (simp add: same_wakes_def a')
qed

lemma calculate_near_field_forces_and_moments_frame:
  assumes "calculate_near_field_forces_and_moments X S = Inr S'"
  shows "same_frame S' S \<and> current_step S < length (airplanes S)
     \<and> (\<exists>a'. airplanes S' = (airplanes S)[current_step S := a']
            \<and> same_wakes a' (airplanes S ! current_step S))"
proof -
  define step where "step = current_step S"
  from assms obtain a0 opp last0 a1 where a0: "current_airplane S = Inr a0"
    and loop: "for_each [0..<length (wings a0)] (\<lambda>wing_num a.
           err_bind (get1 (wings a) wing_num) (\<lambda>w.
             for_each (List.product [0..<num_chordwise_panels w] [0..<num_spanwise_panels w])
               (\<lambda>(c, s) a'.
                  err_bind
                    (unsteady_panel_forces X ((airplanes S)[step := a']) step a'
                       (last_airplane_at step last0 a') opp wing_num c s)
                    (\<lambda>p'. store_panel a' wing_num c s p'))
               a))
           a0 = Inr a1"
    and S': "S' = S\<lparr>airplanes := (airplanes S)[step := a1]\<rparr>"
    unfolding calculate_near_field_forces_and_moments_def err_bind_Inr_iff Let_def step_def
    by blast
  from a0 have l: "current_step S < length (airplanes S)"
    and e: "a0 = airplanes S ! current_step S"
    by (auto simp: current_airplane_def get1_def split: if_splits)
  have "same_wakes a1 a0"
  proof (rule for_each_invariant [OF loop, where P = "\<lambda>a. same_wakes a a0"])
    show "same_wakes a0 a0" by simp
  next
    fix wing_num t t'
    assume t: "same_wakes t a0"
      and b: "err_bind (get1 (wings t) wing_num) (\<lambda>w.
             for_each (List.product [0..<num_chordwise_panels w] [0..<num_spanwise_panels w])
               (\<lambda>(c, s) a'.
                  err_bind
                    (unsteady_panel_forces X ((airplanes S)[step := a']) step a'
                       (last_airplane_at step last0 a') opp wing_num c s)
                    (\<lambda>p'. store_panel a' wing_num c s p'))
               t) = Inr t'"
    from b obtain w :: wing where
      inner: "for_each (List.product [0..<num_chordwise_panels w] [0..<num_spanwise_panels w])
               (\<lambda>(c, s) a'.
                  err_bind
                    (unsteady_panel_forces X ((airplanes S)[step := a']) step a'
                       (last_airplane_at step last0 a') opp wing_num c s)
                    (\<lambda>p'. store_panel a' wing_num c s p'))
               t = Inr t'"
      by (auto simp: err_bind_Inr_iff)
    show "same_wakes t' a0"
    proof (rule for_each_invariant [OF inner, where P = "\<lambda>a. same_wakes a a0"])
      show "same_wakes t a0" by (rule t)
    next
      fix x u u'
      assume u: "same_wakes u a0"
        and c: "(case x of (c, s) \<Rightarrow> \<lambda>a'.
                  err_bind
                    (unsteady_panel_forces X ((airplanes S)[step := a']) step a'
                       (last_airplane_at step last0 a') opp wing_num c s)
                    (\<lambda>p'. store_panel a' wing_num c s p')) u = Inr u'"
      obtain c0 s0 where x: "x = (c0, s0)" by (cases x)
      from c obtain p' where "store_panel u wing_num c0 s0 p' = Inr u'"
        unfolding x by (auto simp: err_bind_Inr_iff)
      from store_panel_wakes [OF this] u show "same_wakes u' a0"
        using same_wakes_trans by blast
    qed
  qed
  then show ?thesis using l e by (auto simp: S' same_frame_def step_def)
qed

lemma for_next_wings_Inr:
  assumes "for_next_wings f S = Inr S'"
  shows "same_frame S' S \<and> current_step S < length (airplanes S)
     \<and> (if current_step S + 1 < num_steps S then
          Suc (current_step S) < length (airplanes S)
          \<and> (\<exists>next'. airplanes S' = (airplanes S)[Suc (current_step S) := next']
               \<and> length (wings next') = length (wings (airplanes S ! Suc (current_step S)))
               \<and> (\<forall>i<length (wings (airplanes S ! current_step S)).
                     i < length (wings (airplanes S ! Suc (current_step S)))
                   \<and> (\<exists>as. f as i (wings (airplanes S ! current_step S) ! i)
                              (wings (airplanes S ! Suc (current_step S)) ! i)
                            = Inr (wings next' ! i)))
               \<and> (\<forall>i\<ge>length (wings (airplanes S ! current_step S)).
                     wings next' ! i = wings (airplanes S ! Suc (current_step S)) ! i))
        else S' = S)"
proof -
  define step where "step = current_step S"
  define this where "this = airplanes S ! step"
  define next0 where "next0 = airplanes S ! Suc step"
  define body where "body = (\<lambda>wing_num as.
      err_bind (get1 as (step + 1)) (\<lambda>next_airplane.
      err_bind (get1 (wings this) wing_num) (\<lambda>this_wing.
      err_bind (get1 (wings next_airplane) wing_num) (\<lambda>next_wing.
      err_bind (f as wing_num this_wing next_wing) (\<lambda>next_wing'.
        Inr (as[step + 1 :=
               next_airplane\<lparr>wings := (wings next_airplane)[wing_num := next_wing']\<rparr>]))))))"
  from assms have l: "step < length (airplanes S)"
    by (auto simp: for_next_wings_def Let_def err_bind_Inr_iff current_airplane_def get1_def
        step_def split: if_splits)
  then have cur: "current_airplane S = Inr this"
    by (simp add: current_airplane_def get1_def step_def this_def)
  show ?thesis
  proof (cases "step + 1 < num_steps S")
    case False
    then have "S' = S" using assms cur
      by (simp add: for_next_wings_def Let_def step_def)
    then show ?thesis using False l by (simp add: step_def)
  next
    case True
    from assms True cur obtain as' where l1: "Suc step < length (airplanes S)"
      and loop: "for_each [0..<length (wings this)] body (airplanes S) = Inr as'"
      and S': "S' = S\<lparr>airplanes := as'\<rparr>"
      by (auto simp: for_next_wings_def Let_def step_def [symmetric] body_def err_bind_Inr_iff
          get1_def split: if_splits)
    define P where "P = (\<lambda>k as. \<exists>next'. as = (airplanes S)[Suc step := next']
               \<and> length (wings next') = length (wings next0)
               \<and> (\<forall>i<k. i < length (wings next0)
                   \<and> (\<exists>as. f as i (wings this ! i) (wings next0 ! i) = Inr (wings next' ! i)))
               \<and> (\<forall>i\<ge>k. wings next' ! i = wings next0 ! i))"
    have "P (length (wings this)) as'"
    proof (rule for_each_upt_invariant [OF loop, where P = P])
      have "airplanes S = (airplanes S)[Suc step := next0]"
        by (simp add: next0_def)
      then show "P 0 (airplanes S)" unfolding P_def by blast
    next
      fix i t t'
      assume i: "i < length (wings this)" and Pt: "P i t" and b: "body i t = Inr t'"
      from Pt obtain nx where t: "t = (airplanes S)[Suc step := nx]"
        and ln: "length (wings nx) = length (wings next0)"
        and dn: "\<forall>j<i. j < length (wings next0)
                   \<and> (\<exists>as. f as j (wings this ! j) (wings next0 ! j) = Inr (wings nx ! j))"
        and rest: "\<forall>j\<ge>i. wings nx ! j = wings next0 ! j"
        unfolding P_def by blast
      have g: "get1 t (step + 1) = Inr nx" using l1 by (simp add: get1_def t)
      from b obtain nw' where il: "i < length (wings nx)"
        and fi: "f t i (wings this ! i) (wings nx ! i) = Inr nw'"
        and t': "t' = t[step + 1 := nx\<lparr>wings := (wings nx)[i := nw']\<rparr>]"
        unfolding body_def g using i
        by (auto simp: err_bind_Inr_iff get1_def split: if_splits)
      let ?nx = "nx\<lparr>wings := (wings nx)[i := nw']\<rparr>"
      have 1: "t' = (airplanes S)[Suc step := ?nx]" by (simp add: t' t)
      have 2: "length (wings ?nx) = length (wings next0)" using ln by simp
      have 3: "\<forall>j<Suc i. j < length (wings next0)
                   \<and> (\<exists>as. f as j (wings this ! j) (wings next0 ! j) = Inr (wings ?nx ! j))"
      proof (intro allI impI)
        fix j assume "j < Suc i"
        then consider "j < i" | "j = i" by linarith
        then show "j < length (wings next0)
                   \<and> (\<exists>as. f as j (wings this ! j) (wings next0 ! j) = Inr (wings ?nx ! j))"
        proof cases
          case 1
          then show ?thesis using dn by simp
        next
          case 2
          have "wings nx ! i = wings next0 ! i" using rest by simp
          then show ?thesis using 2 il ln fi by auto
        qed
      qed
      have 4: "\<forall>j\<ge>Suc i. wings ?nx ! j = wings next0 ! j" using rest by simp
      show "P (Suc i) t'" unfolding P_def using 1 2 3 4 by blast
    qed
    then show ?thesis
      using True l l1 unfolding P_def
      by (auto simp: S' same_frame_def step_def [symmetric] this_def next0_def)
  qed
qed

lemma err_bind4E:
  assumes "err_bind m1 (\<lambda>a. err_bind (m2 a) (\<lambda>b. err_bind (m3 a b) (\<lambda>c.
             err_bind (m4 a b c) (\<lambda>d. f a b c d)))) = Inr y"
  obtains a b c d where "f a b c d = Inr y"
  using assms by (auto simp: err_bind_Inr_iff)

lemma for_each_cells:
  assumes "for_each ps body A = Inr A'" and "distinct ps"
    and "\<And>x B B'. x \<in> set ps \<Longrightarrow> body x B = Inr B' \<Longrightarrow>
          same_shape B' B
        \<and> (\<forall>r c. (r, c) \<noteq> x \<longrightarrow> rows B' ! r ! c = rows B ! r ! c)
        \<and> Q x (rows B ! fst x ! snd x) (rows B' ! fst x ! snd x)"
  shows "same_shape A' A
     \<and> (\<forall>r c. (r, c) \<notin> set ps \<longrightarrow> rows A' ! r ! c = rows A ! r ! c)
     \<and> (\<forall>x\<in>set ps. Q x (rows A ! fst x ! snd x) (rows A' ! fst x ! snd x))"
  using assms
proof (induction ps arbitrary: A)
  case Nil
  then show ?case by simp
next
  case (Cons x ps)
  from Cons.prems(1) obtain B where b: "body x A = Inr B" and r: "for_each ps body B = Inr A'"
    by (auto split: sum.splits)
  have d: "distinct ps" and notin: "x \<notin> set ps" using Cons.prems(2) by auto
  from Cons.prems(3) [OF _ b] have sB: "same_shape B A"
    and oB: "\<forall>r c. (r, c) \<noteq> x \<longrightarrow> rows B ! r ! c = rows A ! r ! c"
    and qB: "Q x (rows A ! fst x ! snd x) (rows B ! fst x ! snd x)"
    by auto
  have step: "same_shape C' C
        \<and> (\<forall>r c. (r, c) \<noteq> y \<longrightarrow> rows C' ! r ! c = rows C ! r ! c)
        \<and> Q y (rows C ! fst y ! snd y) (rows C' ! fst y ! snd y)"
    if "y \<in> set ps" "body y C = Inr C'" for y C C'
    using Cons.prems(3) [of y C C'] that by simp
  from Cons.IH [OF r d step] have sA: "same_shape A' B"
    and oA: "\<forall>r c. (r, c) \<notin> set ps \<longrightarrow> rows A' ! r ! c = rows B ! r ! c"
    and qA: "\<forall>y\<in>set ps. Q y (rows B ! fst y ! snd y) (rows A' ! fst y ! snd y)"
    by auto
  have 1: "same_shape A' A" using sA sB same_shape_trans by blast
  have 2: "\<forall>r c. (r, c) \<notin> set (x # ps) \<longrightarrow> rows A' ! r ! c = rows A ! r ! c"
    using oA oB by auto
  have 3: "Q y (rows A ! fst y ! snd y) (rows A' ! fst y ! snd y)" if y: "y \<in> set (x # ps)" for y
  proof (cases "y = x")
    case True
    have "rows A' ! fst x ! snd x = rows B ! fst x ! snd x"
      using oA notin by (metis prod.collapse)
    then show ?thesis using qB True by simp
  next
    case False
    then have yps: "y \<in> set ps" using y by simp
    have "rows B ! fst y ! snd y = rows A ! fst y ! snd y"
      using oB False by (metis prod.collapse)
    then show ?thesis using qA yps by auto
  qed
  show ?case using 1 2 3 by blast
qed

lemma set2_cells:
  assumes "set2 A (int i) (int j) v = Inr B"
  shows "same_shape B A
     \<and> (\<forall>r c. (r, c) \<noteq> (i, j) \<longrightarrow> rows B ! r ! c = rows A ! r ! c)
     \<and> rows B ! i ! j = v"
proof -
  from assms have r1: "i < length (rows A)" and r2: "j < length (rows A ! i)"
    and B: "B = A\<lparr>rows := (rows A)[i := (rows A ! i)[j := v]]\<rparr>"
    by (auto simp: set2_nat_Inr shape0_def)
  have "rows B ! r ! c = (if r = i \<and> c = j then v else rows A ! r ! c)" for r c
    using nth_update2 [OF r1 r2] by (simp add: B)
  then show ?thesis using set2_same_shape [OF assms] by auto
qed

lemma wake_vortices_body:
  assumes "(if sv + 1 < nsv \<and> cv + 1 < ncv then
                  err_bind (get2 V (int cv) (int sv)) (\<lambda>fl.
                  err_bind (get2 V (int cv) (int sv + 1)) (\<lambda>fr.
                  err_bind (get2 V (int cv + 1) (int sv)) (\<lambda>bl.
                  err_bind (get2 V (int cv + 1) (int sv + 1)) (\<lambda>br.
                  err_bind
                    (if cv > 0 then
                       err_bind (get2 R (int cv) (int sv)) (\<lambda>r.
                         case r of None \<Rightarrow> Inl AttributeError
                         | Some rv \<Rightarrow>
                             set2 R (int cv) (int sv) (Some (update_position rv fl fr bl br)))
                     else Inr R) (\<lambda>R1.
                    if cv = 0 then
                      err_bind (get2 (panels tw)
                                  (int (num_chordwise_panels tw) - 1) (int sv))
                        (\<lambda>p. set2 R1 (int cv) (int sv)
                               (Some (RingVortex fl fr bl br (strength (ring_vortex p)))))
                    else Inr R1)))))
                else Inr R) = Inr R'"
  shows "same_shape R' R
        \<and> (\<forall>r c. (r, c) \<noteq> (cv, sv) \<longrightarrow> rows R' ! r ! c = rows R ! r ! c)
        \<and> shed_cell tw ncv nsv (cv, sv) (rows R ! cv ! sv) (rows R' ! cv ! sv)"
proof (cases "sv + 1 < nsv \<and> cv + 1 < ncv")
  case False
  then have "R' = R" using assms by auto
  then show ?thesis using False by (auto simp: shed_cell_def)
next
  case True
  from assms True have "err_bind (get2 V (int cv) (int sv)) (\<lambda>fl.
                  err_bind (get2 V (int cv) (int sv + 1)) (\<lambda>fr.
                  err_bind (get2 V (int cv + 1) (int sv)) (\<lambda>bl.
                  err_bind (get2 V (int cv + 1) (int sv + 1)) (\<lambda>br.
                  err_bind
                    (if cv > 0 then
                       err_bind (get2 R (int cv) (int sv)) (\<lambda>r.
                         case r of None \<Rightarrow> Inl AttributeError
                         | Some rv \<Rightarrow>
                             set2 R (int cv) (int sv) (Some (update_position rv fl fr bl br)))
                     else Inr R) (\<lambda>R1.
                    if cv = 0 then
                      err_bind (get2 (panels tw)
                                  (int (num_chordwise_panels tw) - 1) (int sv))
                        (\<lambda>p. set2 R1 (int cv) (int sv)
                               (Some (RingVortex fl fr bl br (strength (ring_vortex p)))))
                    else Inr R1))))) = Inr R'"
    by simp
  then obtain fl fr bl br where
    b: "err_bind
          (if cv > 0 then
             err_bind (get2 R (int cv) (int sv)) (\<lambda>r.
               case r of None \<Rightarrow> Inl AttributeError
               | Some rv \<Rightarrow> set2 R (int cv) (int sv) (Some (update_position rv fl fr bl br)))
           else Inr R) (\<lambda>R1.
          if cv = 0 then
            err_bind (get2 (panels tw) (int (num_chordwise_panels tw) - 1) (int sv))
              (\<lambda>p. set2 R1 (int cv) (int sv)
                     (Some (RingVortex fl fr bl br (strength (ring_vortex p)))))
          else Inr R1) = Inr R'"
    by (rule err_bind4E)
  show ?thesis
  proof (cases "cv = 0")
    case True
    from b True obtain p where
      p: "get2 (panels tw) (int (num_chordwise_panels tw) - 1) (int sv) = Inr p"
      and s: "set2 R (int cv) (int sv)
                (Some (RingVortex fl fr bl br (strength (ring_vortex p)))) = Inr R'"
      by (auto simp: err_bind_Inr_iff)
    have te: "trailing_edge_strength tw sv = strength (ring_vortex p)"
      by (simp add: trailing_edge_strength_def p)
    have "strength (RingVortex fl fr bl br (strength (ring_vortex p))) = strength (ring_vortex p)"
      by (simp add: RingVortex_def)
    then show ?thesis using set2_cells [OF s] te True by (auto simp: shed_cell_def)
  next
    case False
    from b False obtain rv where r: "get2 R (int cv) (int sv) = Inr (Some rv)"
      and s: "set2 R (int cv) (int sv) (Some (update_position rv fl fr bl br)) = Inr R'"
      by (auto simp: err_bind_Inr_iff split: option.splits)
    from r have old: "rows R ! cv ! sv = Some rv" by (simp add: get2_nat_Inr)
    have "strength (update_position rv fl fr bl br) = strength rv"
      by (simp add: update_position_def)
    then show ?thesis using set2_cells [OF s] old False by (auto simp: shed_cell_def)
  qed
qed

lemma populate_wing_wake_vortices_Inr:
  assumes "populate_wing_wake_vortices tw nw = Inr nw'"
  shows "shape1 (wake_ring_vortex_vertices nw) \<noteq> 0
     \<and> shape1 (wake_ring_vortices tw) = shape1 (wake_ring_vortex_vertices nw) - 1
     \<and> nw' = nw\<lparr>wake_ring_vortices := wake_ring_vortices nw'\<rparr>
     \<and> shape1 (wake_ring_vortices nw') = shape1 (wake_ring_vortex_vertices nw) - 1
     \<and> map length (rows (wake_ring_vortices nw'))
         = (shape1 (wake_ring_vortex_vertices nw) - 1) # map length (rows (wake_ring_vortices tw))
     \<and> (\<forall>c. c + 1 < shape1 (wake_ring_vortex_vertices nw)
              \<and> 1 < shape0 (wake_ring_vortex_vertices nw) \<longrightarrow>
            (\<exists>rv. rows (wake_ring_vortices nw') ! 0 ! c = Some rv
                \<and> strength rv = trailing_edge_strength tw c))
     \<and> (\<forall>r c. map_option strength (rows (wake_ring_vortices nw') ! Suc r ! c)
              = map_option strength (rows (wake_ring_vortices tw) ! r ! c))"
proof -
  define V where "V = wake_ring_vortex_vertices nw"
  define ncv where "ncv = shape0 V"
  define nsv where "nsv = shape1 V"
  define R0 :: "ring_vortex option array2" where
    "R0 = \<lparr>shape1 = nsv - 1, rows = replicate (nsv - 1) None # rows (wake_ring_vortices tw)\<rparr>"
  define body where "body = (\<lambda>(cv, sv) R.
                if sv + 1 < nsv \<and> cv + 1 < ncv then
                  err_bind (get2 V (int cv) (int sv)) (\<lambda>fl.
                  err_bind (get2 V (int cv) (int sv + 1)) (\<lambda>fr.
                  err_bind (get2 V (int cv + 1) (int sv)) (\<lambda>bl.
                  err_bind (get2 V (int cv + 1) (int sv + 1)) (\<lambda>br.
                  err_bind
                    (if cv > 0 then
                       err_bind (get2 R (int cv) (int sv)) (\<lambda>r.
                         case r of None \<Rightarrow> Inl AttributeError
                         | Some rv \<Rightarrow>
                             set2 R (int cv) (int sv) (Some (update_position rv fl fr bl br)))
                     else Inr R) (\<lambda>R1.
                    if cv = 0 then
                      err_bind (get2 (panels tw)
                                  (int (num_chordwise_panels tw) - 1) (int sv))
                        (\<lambda>p. set2 R1 (int cv) (int sv)
                               (Some (RingVortex fl fr bl br (strength (ring_vortex p)))))
                    else Inr R1)))))
                else Inr R)"
  from assms have n0: "nsv \<noteq> 0"
    by (auto simp: populate_wing_wake_vortices_def Let_def nsv_def V_def split: if_splits)
  from assms n0 obtain R where
    st: "vstack (row_array (nsv - 1) (replicate (nsv - 1) None)) (wake_ring_vortices tw) = Inr R0"
    and loop: "for_each (List.product [0..<ncv] [0..<nsv]) body R0 = Inr R"
    and nw': "nw' = nw\<lparr>wake_ring_vortices := R\<rparr>"
    unfolding populate_wing_wake_vortices_def Let_def V_def [symmetric] nsv_def [symmetric]
      ncv_def [symmetric] body_def [symmetric] R0_def
    by (auto simp: err_bind_Inr_iff vstack_def row_array_def split: if_splits)
  from st have sh: "shape1 (wake_ring_vortices tw) = nsv - 1"
    by (auto simp: vstack_def row_array_def split: if_splits)
  have cells: "same_shape R R0
     \<and> (\<forall>r c. (r, c) \<notin> set (List.product [0..<ncv] [0..<nsv]) \<longrightarrow>
            rows R ! r ! c = rows R0 ! r ! c)
     \<and> (\<forall>x\<in>set (List.product [0..<ncv] [0..<nsv]).
           shed_cell tw ncv nsv x (rows R0 ! fst x ! snd x) (rows R ! fst x ! snd x))"
  proof (rule for_each_cells [OF loop])
    show "distinct (List.product [0..<ncv] [0..<nsv])" by (simp add: distinct_product)
  next
    fix x B B'
    assume b: "body x B = Inr B'"
    obtain cv sv where x: "x = (cv, sv)" by (cases x)
    from b show "same_shape B' B
        \<and> (\<forall>r c. (r, c) \<noteq> x \<longrightarrow> rows B' ! r ! c = rows B ! r ! c)
        \<and> shed_cell tw ncv nsv x (rows B ! fst x ! snd x) (rows B' ! fst x ! snd x)"
      unfolding x body_def using wake_vortices_body [of sv nsv cv ncv V B tw B'] by simp
  qed
  have 1: "shape1 R = nsv - 1" and 2: "map length (rows R)
         = (nsv - 1) # map length (rows (wake_ring_vortices tw))"
    using cells by (simp_all add: same_shape_def R0_def)
  have 3: "\<exists>rv. rows R ! 0 ! c = Some rv \<and> strength rv = trailing_edge_strength tw c"
    if c: "c + 1 < nsv" "1 < ncv" for c
  proof -
    have "(0, c) \<in> set (List.product [0..<ncv] [0..<nsv])" using c by auto
    then have "shed_cell tw ncv nsv (0, c) (rows R0 ! 0 ! c) (rows R ! 0 ! c)"
      using cells by fastforce
    then show ?thesis using c by (simp add: shed_cell_def)
  qed
  have 4: "map_option strength (rows R ! Suc r ! c)
              = map_option strength (rows (wake_ring_vortices tw) ! r ! c)" for r c
  proof (cases "(Suc r, c) \<in> set (List.product [0..<ncv] [0..<nsv])")
    case True
    then have "shed_cell tw ncv nsv (Suc r, c) (rows R0 ! Suc r ! c) (rows R ! Suc r ! c)"
      using cells by fastforce
    then show ?thesis by (simp add: shed_cell_def R0_def)
  next
    case False
    then have "rows R ! Suc r ! c = rows R0 ! Suc r ! c" using cells by blast
    then show ?thesis by (simp add: R0_def)
  qed
  show ?thesis
    using n0 sh 1 2 3 4 unfolding nw' nsv_def ncv_def V_def by simp
qed

lemma new_row_length:
  assumes "new_row_of_wake_ring_vortex_vertices X as step freestream dt wing_num tw nw = Inr row"
  shows "length row = num_spanwise_panels tw + 1"
proof -
  define n where "n = num_spanwise_panels tw"
  show ?thesis
    unfolding n_def [symmetric]
  proof (rule for_each_invariant [OF assms [unfolded new_row_of_wake_ring_vortex_vertices_def
          Let_def n_def [symmetric]], where P = "\<lambda>row. length row = n + 1"])
    show "length (replicate (n + 1) zeros3) = n + 1" by simp
  next
    fix x and t t' :: "vec3 list"
    assume "length t = n + 1"
      and "err_bind (get2 (panels nw) (int (num_chordwise_panels tw) - 1) (int x))
             (\<lambda>next_panel.
                Inr (if x + 1 = n
                     then t[x := quarter_step (back_left_vertex next_panel)
                              (vadd freestream
                                 (get_flapping_velocity_at_point_on_panel X as wing_num
                                    (int (num_chordwise_panels tw) - 1) x
                                    ''back_left_vertex'' step))
                              dt,
                            x + 1 := quarter_step (back_right_vertex next_panel)
                              (vadd freestream
                                 (get_flapping_velocity_at_point_on_panel X as wing_num
                                    (int (num_chordwise_panels tw) - 1) x
                                    ''back_right_vertex'' step))
                              dt]
                     else t[x := quarter_step (back_left_vertex next_panel)
                              (vadd freestream
                                 (get_flapping_velocity_at_point_on_panel X as wing_num
                                    (int (num_chordwise_panels tw) - 1) x
                                    ''back_left_vertex'' step))
                              dt])) = Inr t'"
    then show "length t' = n + 1" by (auto simp: err_bind_Inr_iff split: if_splits)
  qed
qed

lemma update_trailing_edge_ring_vortices_Inr:
  "update_trailing_edge_ring_vortices tw row nw = Inr nw' \<Longrightarrow> \<exists>ps. nw' = nw\<lparr>panels := ps\<rparr>"
  by (auto simp: update_trailing_edge_ring_vortices_def Let_def err_bind_Inr_iff)

lemma convected_row_length:
  assumes "convected_row freestream dt n V = Inr row"
  shows "length row = n + 1"
proof (rule for_each_invariant [OF assms [unfolded convected_row_def],
      where P = "\<lambda>row. length row = n + 1"])
  show "length (replicate (n + 1) zeros3) = n + 1" by simp
next
  fix x :: "nat \<times> nat" and t t' :: "vec3 list"
  assume "length t = n + 1"
    and "(case x of (chordwise_vertex_position, spanwise_vertex_position) \<Rightarrow> \<lambda>row.
          err_bind (get2 V (int chordwise_vertex_position) (int spanwise_vertex_position))
            (\<lambda>vertex. set1 row spanwise_vertex_position (vadd vertex (smul dt freestream)))) t
         = Inr t'"
  then show "length t' = n + 1"
    by (cases x) (auto simp: err_bind_Inr_iff set1_Inr)
qed

lemma convect_vertices_same_shape:
  assumes "convect_vertices freestream dt V = Inr V'"
  shows "same_shape V' V"
  using for_each_pointwise [OF assms [unfolded convect_vertices_def]]
  by (simp add: distinct_product)

lemma populate_wing_wake_vortex_vertices_Inr:
  assumes "populate_wing_wake_vortex_vertices X as step freestream dt wing_num tw nw = Inr nw'"
  shows "(\<exists>ps V. nw' = nw\<lparr>panels := ps, wake_ring_vortex_vertices := V\<rparr>)
     \<and> shape1 (wake_ring_vortex_vertices nw') = num_spanwise_panels tw + 1
     \<and> map length (rows (wake_ring_vortex_vertices nw')) =
         (if step = 0
          then map length (rows (wake_ring_vortex_vertices nw))
                 @ [num_spanwise_panels tw + 1, num_spanwise_panels tw + 1]
          else (num_spanwise_panels tw + 1) # map length (rows (wake_ring_vortex_vertices tw)))"
proof (cases "step = 0")
  case True
  from assms True obtain row next1 V1 row2 V2 where
    row: "new_row_of_wake_ring_vortex_vertices X as step freestream dt wing_num tw nw = Inr row"
    and n1: "update_trailing_edge_ring_vortices tw row nw = Inr next1"
    and V1: "vstack (wake_ring_vortex_vertices next1)
               (row_array (num_spanwise_panels tw + 1) row) = Inr V1"
    and row2: "convected_row freestream dt (num_spanwise_panels tw) V1 = Inr row2"
    and V2: "vstack V1 (row_array (num_spanwise_panels tw + 1) row2) = Inr V2"
    and nw': "nw' = next1\<lparr>wake_ring_vortex_vertices := V2\<rparr>"
    unfolding populate_wing_wake_vortex_vertices_def Let_def
    by (auto simp: err_bind_Inr_iff)
  from update_trailing_edge_ring_vortices_Inr [OF n1] obtain ps where
    next1: "next1 = nw\<lparr>panels := ps\<rparr>" by blast
  have l1: "length row = num_spanwise_panels tw + 1" by (rule new_row_length [OF row])
  have l2: "length row2 = num_spanwise_panels tw + 1" by (rule convected_row_length [OF row2])
  from V1 have sh: "shape1 (wake_ring_vortex_vertices nw) = num_spanwise_panels tw + 1"
    and V1e: "V1 = \<lparr>shape1 = num_spanwise_panels tw + 1,
                    rows = rows (wake_ring_vortex_vertices nw) @ [row]\<rparr>"
    by (auto simp: vstack_def row_array_def next1 split: if_splits)
  from V2 have V2e: "V2 = \<lparr>shape1 = num_spanwise_panels tw + 1,
                    rows = rows (wake_ring_vortex_vertices nw) @ [row, row2]\<rparr>"
    by (auto simp: vstack_def row_array_def V1e split: if_splits)
  show ?thesis using True l1 l2 by (auto simp: nw' next1 V2e)
next
  case False
  from assms False obtain V1 row next1 V2 where
    V1: "convect_vertices freestream dt (wake_ring_vortex_vertices tw) = Inr V1"
    and row: "new_row_of_wake_ring_vortex_vertices X as step freestream dt wing_num tw nw = Inr row"
    and n1: "update_trailing_edge_ring_vortices tw row nw = Inr next1"
    and V2: "vstack (row_array (num_spanwise_panels tw + 1) row) V1 = Inr V2"
    and nw': "nw' = next1\<lparr>wake_ring_vortex_vertices := V2\<rparr>"
    unfolding populate_wing_wake_vortex_vertices_def Let_def
    by (auto simp: err_bind_Inr_iff)
  from update_trailing_edge_ring_vortices_Inr [OF n1] obtain ps where
    next1: "next1 = nw\<lparr>panels := ps\<rparr>" by blast
  have l1: "length row = num_spanwise_panels tw + 1" by (rule new_row_length [OF row])
  have ss: "map length (rows V1) = map length (rows (wake_ring_vortex_vertices tw))"
    using convect_vertices_same_shape [OF V1] by (simp add: same_shape_def)
  from V2 have V2e: "V2 = \<lparr>shape1 = num_spanwise_panels tw + 1, rows = row # rows V1\<rparr>"
    by (auto simp: vstack_def row_array_def split: if_splits)
  show ?thesis using False l1 ss by (auto simp: nw' next1 V2e)
qed

lemma populate_wing_wake:
  assumes v: "populate_wing_wake_vortex_vertices X as step freestream dt wing_num tw nw = Inr nw1"
    and r: "populate_wing_wake_vortices tw nw1 = Inr nw'"
  shows "wake_shed step tw nw nw'"
proof -
  from populate_wing_wake_vortex_vertices_Inr [OF v] obtain ps V where
    nw1: "nw1 = nw\<lparr>panels := ps, wake_ring_vortex_vertices := V\<rparr>"
    and s1: "shape1 (wake_ring_vortex_vertices nw1) = num_spanwise_panels tw + 1"
    and ml: "map length (rows (wake_ring_vortex_vertices nw1)) =
         (if step = 0
          then map length (rows (wake_ring_vortex_vertices nw))
                 @ [num_spanwise_panels tw + 1, num_spanwise_panels tw + 1]
          else (num_spanwise_panels tw + 1) # map length (rows (wake_ring_vortex_vertices tw)))"
    by blast
  from populate_wing_wake_vortices_Inr [OF r] have
    a: "shape1 (wake_ring_vortices tw) = shape1 (wake_ring_vortex_vertices nw1) - 1"
    and b: "nw' = nw1\<lparr>wake_ring_vortices := wake_ring_vortices nw'\<rparr>"
    and c: "shape1 (wake_ring_vortices nw') = shape1 (wake_ring_vortex_vertices nw1) - 1"
    and d: "map length (rows (wake_ring_vortices nw'))
         = (shape1 (wake_ring_vortex_vertices nw1) - 1) # map length (rows (wake_ring_vortices tw))"
    and e: "\<forall>c. c + 1 < shape1 (wake_ring_vortex_vertices nw1)
              \<and> 1 < shape0 (wake_ring_vortex_vertices nw1) \<longrightarrow>
            (\<exists>rv. rows (wake_ring_vortices nw') ! 0 ! c = Some rv
                \<and> strength rv = trailing_edge_strength tw c)"
    and f: "\<forall>r c. map_option strength (rows (wake_ring_vortices nw') ! Suc r ! c)
              = map_option strength (rows (wake_ring_vortices tw) ! r ! c)"
    by blast+
  have V': "wake_ring_vortex_vertices nw' = wake_ring_vortex_vertices nw1"
    and n': "num_spanwise_panels nw' = num_spanwise_panels nw"
    using arg_cong [OF b, of wake_ring_vortex_vertices]
      arg_cong [OF b, of num_spanwise_panels] nw1 by simp_all
  show ?thesis
    unfolding wake_shed_def V' n' using s1 ml a c d e f by (simp add: shape0_def)
qed

lemma populate_next_airplanes_wake_Inr:
  assumes "populate_next_airplanes_wake X S = Inr S'"
  shows "wake_populated S S'"
proof -
  define step where "step = current_step S"
  from assms obtain S1 freestream where
    v: "for_next_wings
         (\<lambda>as wing_num this_wing next_wing.
            populate_wing_wake_vortex_vertices X as (current_step S) freestream (delta_time S)
              wing_num this_wing next_wing) S = Inr S1"
    and r: "for_next_wings (\<lambda>as wing_num this_wing_copy next_wing.
        populate_wing_wake_vortices this_wing_copy next_wing) S1 = Inr S'"
    unfolding populate_next_airplanes_wake_def populate_next_airplanes_wake_vortex_vertices_def
      populate_next_airplanes_wake_vortices_def
    by (auto simp: err_bind_Inr_iff)
  note fv = for_next_wings_Inr [OF v]
  note fr = for_next_wings_Inr [OF r]
  from fv have f1: "same_frame S1 S" and l: "current_step S < length (airplanes S)" by auto
  from fr have f2: "same_frame S' S1" by auto
  have fr': "same_frame S' S" using f1 f2 same_frame_trans by blast
  have st: "current_step S1 = step" "num_steps S1 = num_steps S"
    using f1 by (auto simp: same_frame_def step_def)
  show ?thesis
  proof (cases "step + 1 < num_steps S")
    case False
    then have "S1 = S" "S' = S1" using fv fr st by (auto simp: step_def)
    then show ?thesis using False l by (simp add: wake_populated_def step_def)
  next
    case True
    define this where "this = airplanes S ! step"
    define next0 where "next0 = airplanes S ! Suc step"
    from fv True obtain next1 where l1: "Suc step < length (airplanes S)"
      and a1: "airplanes S1 = (airplanes S)[Suc step := next1]"
      and n1: "length (wings next1) = length (wings next0)"
      and w1: "\<forall>i<length (wings this). i < length (wings next0)
                \<and> (\<exists>as. populate_wing_wake_vortex_vertices X as step freestream (delta_time S)
                           i (wings this ! i) (wings next0 ! i) = Inr (wings next1 ! i))"
      and u1: "\<forall>i\<ge>length (wings this). wings next1 ! i = wings next0 ! i"
      unfolding step_def [symmetric] this_def [symmetric] next0_def [symmetric]
      by (auto simp: step_def)
    have this1: "airplanes S1 ! step = this" and nx1: "airplanes S1 ! Suc step = next1"
      using l1 by (simp_all add: a1 this_def)
    from fr True st obtain next2 where
      a2: "airplanes S' = (airplanes S1)[Suc step := next2]"
      and n2: "length (wings next2) = length (wings next1)"
      and w2: "\<forall>i<length (wings this). i < length (wings next1)
                \<and> populate_wing_wake_vortices (wings this ! i) (wings next1 ! i)
                    = Inr (wings next2 ! i)"
      and u2: "\<forall>i\<ge>length (wings this). wings next2 ! i = wings next1 ! i"
      unfolding st this1 nx1 by auto
    have 1: "airplanes S' = (airplanes S)[Suc step := next2]" by (simp add: a2 a1)
    have 2: "length (wings next2) = length (wings next0)" using n1 n2 by simp
    have 3: "\<forall>i<length (wings this). i < length (wings next0)
                 \<and> wake_shed step (wings this ! i) (wings next0 ! i) (wings next2 ! i)"
      using w1 w2 populate_wing_wake by blast
    have 4: "\<forall>i\<ge>length (wings this). wings next2 ! i = wings next0 ! i"
      using u1 u2 by simp
    show ?thesis
      unfolding wake_populated_def step_def [symmetric] this_def [symmetric]
        next0_def [symmetric]
      using True fr' l l1 1 2 3 4 by (auto simp: step_def)
  qed
qed

lemma same_wakesD:
  assumes "same_wakes a b"
  shows "length (wings a) = length (wings b)
     \<and> (\<forall>i<length (wings b).
          wake_ring_vortex_vertices (wings a ! i) = wake_ring_vortex_vertices (wings b ! i)
        \<and> wake_ring_vortices (wings a ! i) = wake_ring_vortices (wings b ! i)
        \<and> num_spanwise_panels (wings a ! i) = num_spanwise_panels (wings b ! i))"
proof -
  from assms have m: "map wake_of (wings a) = map wake_of (wings b)"
    by (simp add: same_wakes_def)
  then have l: "length (wings a) = length (wings b)" by (rule map_eq_imp_length_eq)
  have "wake_of (wings a ! i) = wake_of (wings b ! i)" if "i < length (wings b)" for i
    using m l that by (metis nth_map)
  then show ?thesis using l by (simp add: wake_of_def)
qed

lemma same_wakes_layout: "same_wakes a b \<Longrightarrow> layout a = layout b"
  using same_wakesD [of a b] by (auto simp: layout_def intro!: nth_equalityI)

lemma run_step_effect:
  assumes "run_step X n S = Inr S'"
  shows "step_effect n S S'"
proof -
  define S0 where "S0 = S\<lparr>current_step := n\<rparr>"
  from assms obtain S1 S2 S3 S4 S5 where
    p1: "calculate_wing_wing_influences X S0 = Inr S1"
    and p2: "calculate_freestream_wing_influences X S1 = Inr S2"
    and p3: "calculate_wake_wing_influences X S2 = Inr S3"
    and p4: "calculate_vortex_strengths X S3 = Inr S4"
    and p5: "calculate_near_field_forces_and_moments X S4 = Inr S5"
    and p6: "populate_next_airplanes_wake X S5 = Inr S'"
    unfolding run_step_def Let_def S0_def [symmetric] by (auto simp: err_bind_Inr_iff)
  have a0: "airplanes S0 = airplanes S" and f0: "num_steps S0 = num_steps S"
    "current_step S0 = n"
    by (simp_all add: S0_def)
  from calculate_wing_wing_influences_frame [OF p1]
  have a1: "airplanes S1 = airplanes S" and f1: "num_steps S1 = num_steps S" "current_step S1 = n"
    using a0 f0 by (auto simp: same_frame_def)
  from calculate_freestream_wing_influences_frame [OF p2]
  have a2: "airplanes S2 = airplanes S" and f2: "num_steps S2 = num_steps S" "current_step S2 = n"
    using a1 f1 by (auto simp: same_frame_def)
  from calculate_wake_wing_influences_frame [OF p3]
  have a3: "airplanes S3 = airplanes S" and f3: "num_steps S3 = num_steps S" "current_step S3 = n"
    using a2 f2 by (auto simp: same_frame_def)
  from calculate_vortex_strengths_frame [OF p4] obtain a4 where
    l: "n < length (airplanes S)"
    and a4: "airplanes S4 = (airplanes S)[n := a4]"
    and w4: "same_wakes a4 (airplanes S ! n)"
    and f4: "num_steps S4 = num_steps S" "current_step S4 = n"
    using a3 f3 by (auto simp: same_frame_def)
  from calculate_near_field_forces_and_moments_frame [OF p5] obtain a5 where
    a5: "airplanes S5 = (airplanes S)[n := a5]"
    and w5': "same_wakes a5 (airplanes S4 ! n)"
    and f5: "num_steps S5 = num_steps S" "current_step S5 = n"
    using a4 f4 by (auto simp: same_frame_def)
  have w5: "same_wakes a5 (airplanes S ! n)"
    using w5' w4 l same_wakes_trans by (simp add: a4)
  have this5: "airplanes S5 ! n = a5" using l by (simp add: a5)
  have next5: "airplanes S5 ! Suc n = airplanes S ! Suc n" by (simp add: a5)
  have len5: "length (airplanes S5) = length (airplanes S)" by (simp add: a5)
  note wp = populate_next_airplanes_wake_Inr [OF p6, unfolded wake_populated_def f5 this5 next5 len5]
  from wp have ns: "num_steps S' = num_steps S" using f5 by (auto simp: same_frame_def)
  show ?thesis
  proof (cases "Suc n < num_steps S")
    case False
    then have "S' = S5" using wp by simp
    then have e: "airplanes S' = (airplanes S)[n := a5]" by (simp add: a5)
    have "layout (airplanes S' ! j) = layout (airplanes S ! j)" for j
      using same_wakes_layout [OF w5] l by (cases "j = n") (simp_all add: e)
    then show ?thesis
      unfolding step_effect_def using False ns l w5 by (simp add: e)
  next
    case True
    from wp True obtain nx where
      e: "airplanes S' = (airplanes S)[n := a5, Suc n := nx]"
      and l1: "Suc n < length (airplanes S)"
      and ln: "length (wings nx) = length (wings (airplanes S ! Suc n))"
      and sh: "\<forall>i<length (wings a5). i < length (wings (airplanes S ! Suc n))
                 \<and> wake_shed n (wings a5 ! i) (wings (airplanes S ! Suc n) ! i) (wings nx ! i)"
      and un: "\<forall>i\<ge>length (wings a5). wings nx ! i = wings (airplanes S ! Suc n) ! i"
      by (auto simp: a5)
    have pn: "airplanes S' ! n = a5" and pn1: "airplanes S' ! Suc n = nx"
      using l l1 by (simp_all add: e)
    have other: "airplanes S' ! j = airplanes S ! j" if "j \<noteq> n" "j \<noteq> Suc n" for j
      using that by (simp add: e)
    have lay1: "layout nx = layout (airplanes S ! Suc n)"
      unfolding layout_def
    proof (rule nth_equalityI)
      show "length (map num_spanwise_panels (wings nx))
          = length (map num_spanwise_panels (wings (airplanes S ! Suc n)))"
        using ln by simp
    next
      fix i assume "i < length (map num_spanwise_panels (wings nx))"
      then have i: "i < length (wings nx)" by simp
      have "num_spanwise_panels (wings nx ! i)
          = num_spanwise_panels (wings (airplanes S ! Suc n) ! i)"
      proof (cases "i < length (wings a5)")
        case True
        then show ?thesis using sh by (simp add: wake_shed_def)
      next
        case False
        then show ?thesis using un by simp
      qed
      then show "map num_spanwise_panels (wings nx) ! i
          = map num_spanwise_panels (wings (airplanes S ! Suc n)) ! i"
        using i ln by simp
    qed
    have lay: "layout (airplanes S' ! j) = layout (airplanes S ! j)" for j
    proof -
      consider "j = n" | "j = Suc n" | "j \<noteq> n" "j \<noteq> Suc n" by blast
      then show ?thesis
      proof cases
        case 1
        then show ?thesis using same_wakes_layout [OF w5] pn by simp
      next
        case 2
        then show ?thesis using lay1 pn1 by simp
      next
        case 3
        then show ?thesis using other by simp
      qed
    qed
    show ?thesis
      unfolding step_effect_def pn pn1 using True ns l other lay w5 sh by simp
  qed
qed

lemma run_steps_Suc:
  "run_steps X (Suc n) S = err_bind (run_steps X n S) (run_step X n)"
  by (simp add: run_steps_def for_each_snoc)

lemma layout_nth:
  assumes "layout a = layout b"
  shows "length (wings a) = length (wings b)
     \<and> (\<forall>i<length (wings b).
           num_spanwise_panels (wings a ! i) = num_spanwise_panels (wings b ! i))"
proof -
  from assms have m: "map num_spanwise_panels (wings a) = map num_spanwise_panels (wings b)"
    by (simp add: layout_def)
  then have l: "length (wings a) = length (wings b)" by (rule map_eq_imp_length_eq)
  have "num_spanwise_panels (wings a ! i) = num_spanwise_panels (wings b ! i)"
    if "i < length (wings b)" for i
    using m l that by (metis nth_map)
  then show ?thesis using l by simp
qed

lemma wake_invariant_step:
  assumes inv: "wake_invariant n S Sn" and eff: "step_effect n Sn S'"
  shows "wake_invariant (Suc n) S S'"
proof -
  define A where "A = (\<lambda>j. airplanes S ! j)"
  define B where "B = (\<lambda>j. airplanes Sn ! j)"
  define C where "C = (\<lambda>j. airplanes S' ! j)"
  define nsp0 where "nsp0 = (\<lambda>i. num_spanwise_panels (wings (A 0) ! i))"
  define V0 where "V0 = (\<lambda>i. wake_ring_vortex_vertices (wings (A 1) ! i))"
  define R0 where "R0 = (\<lambda>i. wake_ring_vortices (wings (A 0) ! i))"
  note I = inv [unfolded wake_invariant_def]
  have ns: "num_steps Sn = num_steps S" using I by blast
  have layB: "layout (B j) = layout (A j)" for j
    unfolding A_def B_def using I by blast
  have swB: "same_wakes (B j) (A j)" if "j = 0 \<or> n < j" for j
    using I that unfolding A_def B_def by blast
  have invB: "i < length (wings (B j))
       \<and> grid_ok j (nsp0 i) (V0 i) (R0 i) (wings (B j) ! i)
       \<and> (\<forall>m<j. \<forall>c<num_spanwise_panels (wings (B m) ! i).
             \<exists>rv. rows (wake_ring_vortices (wings (B j) ! i)) ! (j - 1 - m) ! c = Some rv
                 \<and> strength rv = trailing_edge_strength (wings (B m) ! i) c)"
    if "1 \<le> j" "j \<le> n" "j < num_steps S" "i < length (wings (A 0))" for j i
  proof -
    from I have "\<forall>j i. 1 \<le> j \<and> j \<le> n \<and> j < num_steps S
          \<and> i < length (wings (airplanes S ! 0)) \<longrightarrow>
         i < length (wings (airplanes Sn ! j))
       \<and> grid_ok j (num_spanwise_panels (wings (airplanes S ! 0) ! i))
           (wake_ring_vortex_vertices (wings (airplanes S ! 1) ! i))
           (wake_ring_vortices (wings (airplanes S ! 0) ! i))
           (wings (airplanes Sn ! j) ! i)
       \<and> (\<forall>m<j. \<forall>c<num_spanwise_panels (wings (airplanes Sn ! m) ! i).
             \<exists>rv. rows (wake_ring_vortices (wings (airplanes Sn ! j) ! i)) ! (j - 1 - m) ! c
                     = Some rv
                 \<and> strength rv = trailing_edge_strength (wings (airplanes Sn ! m) ! i) c)"
      by (elim conjE)
    with that show ?thesis
      unfolding A_def B_def nsp0_def V0_def R0_def by blast
  qed
  note E = eff [unfolded step_effect_def]
  have ns': "num_steps S' = num_steps Sn" using E by blast
  have other: "C j = B j" if "j \<noteq> n" "j \<noteq> Suc n" for j
    using E that unfolding B_def C_def by blast
  have layC: "layout (C j) = layout (B j)" for j
    unfolding B_def C_def using E by blast
  have swn: "same_wakes (C n) (B n)"
    unfolding B_def C_def using E by blast
  have shed: "i < length (wings (B (Suc n)))
          \<and> wake_shed n (wings (C n) ! i) (wings (B (Suc n)) ! i) (wings (C (Suc n)) ! i)"
    if "Suc n < num_steps S" "i < length (wings (C n))" for i
  proof -
    from E that(1) ns have "\<forall>i<length (wings (airplanes S' ! n)).
            i < length (wings (airplanes Sn ! Suc n))
          \<and> wake_shed n (wings (airplanes S' ! n) ! i) (wings (airplanes Sn ! Suc n) ! i)
               (wings (airplanes S' ! Suc n) ! i)"
      by simp
    with that(2) show ?thesis unfolding B_def C_def by blast
  qed
  have 1: "num_steps S' = num_steps S" using ns ns' by simp
  have 2: "layout (C j) = layout (A j)" for j using layB layC by simp
  have swC: "same_wakes (C j) (B j)" if "j \<le> n" for j
    using that swn other [of j] by (cases "j = n") simp_all
  have 3: "same_wakes (C j) (A j)" if "j = 0 \<or> Suc n < j" for j
  proof (cases "j = 0")
    case True
    then show ?thesis using swC [of 0] swB [of 0] same_wakes_trans by blast
  next
    case False
    then have "Suc n < j" using that by simp
    then show ?thesis using other [of j] swB [of j] by simp
  qed
  have 4: "i < length (wings (C j))
       \<and> grid_ok j (nsp0 i) (V0 i) (R0 i) (wings (C j) ! i)
       \<and> (\<forall>m<j. \<forall>c<num_spanwise_panels (wings (C m) ! i).
             \<exists>rv. rows (wake_ring_vortices (wings (C j) ! i)) ! (j - 1 - m) ! c = Some rv
                 \<and> strength rv = trailing_edge_strength (wings (C m) ! i) c)"
    if j1: "1 \<le> j" and jn: "j \<le> Suc n" and js: "j < num_steps S"
      and i: "i < length (wings (A 0))" for j i
  proof (cases "j \<le> n")
    case True
    note b = invB [OF j1 True js i]
    from b have ib: "i < length (wings (B j))" by simp
    from same_wakesD [OF swC [OF True]] ib have
      l: "length (wings (C j)) = length (wings (B j))"
      and v: "wake_ring_vortex_vertices (wings (C j) ! i)
          = wake_ring_vortex_vertices (wings (B j) ! i)"
      and r: "wake_ring_vortices (wings (C j) ! i) = wake_ring_vortices (wings (B j) ! i)"
      by simp_all
    have g: "grid_ok j (nsp0 i) (V0 i) (R0 i) (wings (C j) ! i)"
      using b by (simp add: grid_ok_def v r)
    have m: "C m = B m" if "m < j" for m using that True other [of m] by simp
    have "\<exists>rv. rows (wake_ring_vortices (wings (C j) ! i)) ! (j - 1 - m) ! c = Some rv
                 \<and> strength rv = trailing_edge_strength (wings (C m) ! i) c"
      if "m < j" "c < num_spanwise_panels (wings (C m) ! i)" for m c
      using b that m [of m] by (simp add: r)
    then show ?thesis using l ib g by simp
  next
    case False
    then have j: "j = Suc n" using jn by simp
    have sn: "Suc n < num_steps S" using js j by simp
    have icn: "i < length (wings (C n))" and grid_n: "0 < n \<Longrightarrow>
        grid_ok n (nsp0 i) (V0 i) (R0 i) (wings (C n) ! i)"
      and vr: "0 < n \<Longrightarrow> wake_ring_vortices (wings (C n) ! i)
          = wake_ring_vortices (wings (B n) ! i)"
    proof -
      show "i < length (wings (C n))"
      proof (cases "n = 0")
        case True
        then show ?thesis using layout_nth [OF 2 [of 0]] i by simp
      next
        case False
        then have "i < length (wings (B n))" using invB [of n i] sn i by simp
        then show ?thesis using same_wakesD [OF swC [of n]] by simp
      qed
    next
      assume n0: "0 < n"
      then have b: "i < length (wings (B n))"
        "grid_ok n (nsp0 i) (V0 i) (R0 i) (wings (B n) ! i)"
        using invB [of n i] sn i by simp_all
      from same_wakesD [OF swC [of n]] b(1) have
        v: "wake_ring_vortex_vertices (wings (C n) ! i)
            = wake_ring_vortex_vertices (wings (B n) ! i)"
        and r: "wake_ring_vortices (wings (C n) ! i) = wake_ring_vortices (wings (B n) ! i)"
        by simp_all
      show "grid_ok n (nsp0 i) (V0 i) (R0 i) (wings (C n) ! i)"
        using b(2) by (simp add: grid_ok_def v r)
      show "wake_ring_vortices (wings (C n) ! i) = wake_ring_vortices (wings (B n) ! i)"
        by (rule r)
    qed
    define tw where "tw = wings (C n) ! i"
    define nw where "nw = wings (B (Suc n)) ! i"
    define nw' where "nw' = wings (C (Suc n)) ! i"
    from shed [OF sn icn] have ibn: "i < length (wings (B (Suc n)))"
      and ws: "wake_shed n tw nw nw'"
      by (simp_all add: tw_def nw_def nw'_def)
    have icn1: "i < length (wings (C (Suc n)))"
      using layout_nth [OF layC [of "Suc n"]] ibn by simp
    have nsp_tw: "num_spanwise_panels tw = nsp0 i"
    proof (cases "n = 0")
      case True
      then show ?thesis using layout_nth [OF 2 [of 0]] i by (simp add: tw_def nsp0_def)
    next
      case False
      then have "shape1 (wake_ring_vortices tw) = nsp0 i"
        using grid_n by (simp add: grid_ok_def tw_def)
      then show ?thesis using ws by (simp add: wake_shed_def)
    qed
    have rows_V: "map length (rows (wake_ring_vortex_vertices nw'))
        = replicate n (nsp0 i + 1) @ map length (rows (V0 i)) @ [nsp0 i + 1, nsp0 i + 1]"
    proof (cases "n = 0")
      case True
      have "same_wakes (B 1) (A 1)" using swB [of 1] True by simp
      from same_wakesD [OF this] layout_nth [OF layB [of 1]] ibn True
      have "wake_ring_vortex_vertices nw = V0 i" by (simp add: nw_def V0_def)
      then show ?thesis using ws True by (simp add: wake_shed_def nsp_tw)
    next
      case False
      then obtain k where k: "n = Suc k" by (cases n) auto
      have "map length (rows (wake_ring_vortex_vertices tw))
          = replicate k (nsp0 i + 1) @ map length (rows (V0 i)) @ [nsp0 i + 1, nsp0 i + 1]"
        using grid_n k by (simp add: grid_ok_def tw_def)
      then show ?thesis using ws k by (simp add: wake_shed_def nsp_tw)
    qed
    have rows_R: "map length (rows (wake_ring_vortices nw'))
        = replicate (Suc n) (nsp0 i) @ map length (rows (R0 i))"
    proof (cases "n = 0")
      case True
      from same_wakesD [OF 3 [of 0]] i True
      have "wake_ring_vortices tw = R0 i" by (simp add: tw_def R0_def)
      then show ?thesis using ws True by (simp add: wake_shed_def nsp_tw)
    next
      case False
      then have "map length (rows (wake_ring_vortices tw))
          = replicate n (nsp0 i) @ map length (rows (R0 i))"
        using grid_n by (simp add: grid_ok_def tw_def)
      then show ?thesis using ws by (simp add: wake_shed_def nsp_tw)
    qed
    have g: "grid_ok (Suc n) (nsp0 i) (V0 i) (R0 i) nw'"
      using ws rows_V rows_R by (simp add: grid_ok_def wake_shed_def nsp_tw)
    have two: "1 < shape0 (wake_ring_vortex_vertices nw')"
    proof -
      have "length (map length (rows (wake_ring_vortex_vertices nw'))) \<ge> 2"
        unfolding rows_V by simp
      then show ?thesis by (simp add: shape0_def)
    qed
    have k: "\<exists>rv. rows (wake_ring_vortices nw') ! (Suc n - 1 - m) ! c = Some rv
                 \<and> strength rv = trailing_edge_strength (wings (C m) ! i) c"
      if m: "m < Suc n" and c: "c < num_spanwise_panels (wings (C m) ! i)" for m c
    proof (cases "m = n")
      case True
      then show ?thesis using ws two c by (simp add: wake_shed_def tw_def)
    next
      case False
      then have mn: "m < n" using m by simp
      then have n0: "0 < n" by simp
      have cm: "C m = B m" using mn other [of m] by simp
      from invB [of n i] n0 sn i mn c cm obtain rv where
        rv: "rows (wake_ring_vortices (wings (B n) ! i)) ! (n - 1 - m) ! c = Some rv"
        and st: "strength rv = trailing_edge_strength (wings (B m) ! i) c"
        by auto
      have idx: "Suc n - 1 - m = Suc (n - 1 - m)" using mn by simp
      from ws have "map_option strength (rows (wake_ring_vortices nw') ! Suc (n - 1 - m) ! c)
          = map_option strength (rows (wake_ring_vortices tw) ! (n - 1 - m) ! c)"
        by (simp add: wake_shed_def)
      also have "\<dots> = Some (strength rv)" using rv vr [OF n0] by (simp add: tw_def)
      finally obtain rv' where "rows (wake_ring_vortices nw') ! Suc (n - 1 - m) ! c = Some rv'"
        and "strength rv' = strength rv"
        by auto
      then show ?thesis using st cm idx by simp
    qed
    show ?thesis unfolding j using icn1 g k by (simp add: nw'_def)
  qed
  show ?thesis
    unfolding wake_invariant_def
  proof (intro conjI allI impI)
    show "num_steps S' = num_steps S" by (rule 1)
  next
    fix j show "layout (airplanes S' ! j) = layout (airplanes S ! j)"
      using 2 [of j] by (simp add: A_def C_def)
  next
    fix j assume "j = 0 \<or> Suc n < j"
    then show "same_wakes (airplanes S' ! j) (airplanes S ! j)"
      using 3 [of j] by (simp add: A_def C_def)
  next
    fix j i
    assume a: "1 \<le> j \<and> j \<le> Suc n \<and> j < num_steps S \<and> i < length (wings (airplanes S ! 0))"
    then have b: "1 \<le> j" "j \<le> Suc n" "j < num_steps S" "i < length (wings (A 0))"
      by (simp_all add: A_def)
    note r = 4 [OF b, unfolded A_def C_def nsp0_def V0_def R0_def]
    from r show "i < length (wings (airplanes S' ! j))" by blast
    from r show "grid_ok j (num_spanwise_panels (wings (airplanes S ! 0) ! i))
           (wake_ring_vortex_vertices (wings (airplanes S ! 1) ! i))
           (wake_ring_vortices (wings (airplanes S ! 0) ! i))
           (wings (airplanes S' ! j) ! i)" by blast
    fix m c
    assume "m < j" "c < num_spanwise_panels (wings (airplanes S' ! m) ! i)"
    with r show "\<exists>rv. rows (wake_ring_vortices (wings (airplanes S' ! j) ! i)) ! (j - 1 - m) ! c
                     = Some rv
                 \<and> strength rv = trailing_edge_strength (wings (airplanes S' ! m) ! i) c"
      by blast
  qed
qed

lemma run_steps_wake:
  "run_steps X n S = Inr S' \<Longrightarrow> wake_invariant n S S'"
proof (induction n arbitrary: S')
  case 0
  then have "S' = S" by (simp add: run_steps_def)
  then show ?case by (simp add: wake_invariant_def)
next
  case (Suc n)
  from Suc.prems obtain Sn where a: "run_steps X n S = Inr Sn" and b: "run_step X n Sn = Inr S'"
    by (auto simp: run_steps_Suc err_bind_Inr_iff)
  show ?case
    using wake_invariant_step [OF Suc.IH [OF a] run_step_effect [OF b]] .
qed

lemmas run_defs =
  run_step_def calculate_wing_wing_influences_def ndenumerate_ravel_def
  calculate_normalized_induced_velocity_def influence_defs strength_defs
  calculate_near_field_forces_and_moments_def unsteady_panel_forces_def
  bound_vortex_strengths_def unsteady_bound_legs_def unsteady_leg_def unsteady_force_def
  bound_leg_force_def add_force_and_moment_def store_panel_def last_airplane_at_def
  populate_next_airplanes_wake_def populate_next_airplanes_wake_vortex_vertices_def
  populate_next_airplanes_wake_vortices_def for_next_wings_def
  populate_wing_wake_vortex_vertices_def new_row_of_wake_ring_vortex_vertices_def
  quarter_step_def update_trailing_edge_ring_vortices_def convected_row_def
  convect_vertices_def row_array_def vstack_def populate_wing_wake_vortices_def
  update_position_def set2_def example_defs example_solver_defs velocity_defs

subsection \<open>Wake over a run\<close>

lemma example_three_pose_run:
  "\<exists>S'. run_steps example_externals 2 example_three_pose_solver = Inr S'
      \<and> trailing_edge_strength (wings (airplanes S' ! 0) ! 0) 0 = Some 0
      \<and> trailing_edge_strength (wings (airplanes S' ! 1) ! 0) 0 = Some (- 1)
      \<and> num_spanwise_panels (wings (airplanes S' ! 0) ! 0) = 1
      \<and> num_spanwise_panels (wings (airplanes S' ! 2) ! 0) = 1
      \<and> length (wings (airplanes S' ! 2)) = 1"
  by (simp add: run_steps_def numeral_2_eq_2 example_three_pose_solver_def run_defs
      trailing_edge_strength_def)

text \<open>
  Claim C3. Let the first pose start with no wake ring vortices and the second with no
  wake vertices, and let pose \<open>k + 1\<close> have the wings of the first pose, each with as
  many spanwise panels. Then from the wake population of step \<open>k\<close> on (after any number
  \<open>n > k\<close> of steps of the run), every wing of pose \<open>k + 1\<close> has a grid of wake vertices of
  \<open>k + 2\<close> rows and one column more than it has spanwise panels, and a grid of wake ring
  vortices of \<open>k + 1\<close> rows and one column per spanwise panel; so the vertex grid has one
  row and one column more than the ring vortex grid.
\<close>

theorem C3_wake_grid_shapes:
  assumes "run_steps X n S = Inr S'" and "k < n" and "Suc k < num_steps S"
    and "list_all (\<lambda>w. shape0 (wake_ring_vortices w) = 0) (wings (airplanes S ! 0))"
    and "list_all (\<lambda>w. shape0 (wake_ring_vortex_vertices w) = 0) (wings (airplanes S ! 1))"
    and "layout (airplanes S ! Suc k) = layout (airplanes S ! 0)"
    and "i < length (wings (airplanes S' ! Suc k))"
  shows "shape0 (wake_ring_vortex_vertices (wings (airplanes S' ! Suc k) ! i)) = k + 2
     \<and> shape1 (wake_ring_vortex_vertices (wings (airplanes S' ! Suc k) ! i))
         = num_spanwise_panels (wings (airplanes S' ! Suc k) ! i) + 1
     \<and> rectangular (wake_ring_vortex_vertices (wings (airplanes S' ! Suc k) ! i))
     \<and> shape0 (wake_ring_vortices (wings (airplanes S' ! Suc k) ! i)) = k + 1
     \<and> shape1 (wake_ring_vortices (wings (airplanes S' ! Suc k) ! i))
         = num_spanwise_panels (wings (airplanes S' ! Suc k) ! i)
     \<and> rectangular (wake_ring_vortices (wings (airplanes S' ! Suc k) ! i))
     \<and> shape0 (wake_ring_vortex_vertices (wings (airplanes S' ! Suc k) ! i))
         = shape0 (wake_ring_vortices (wings (airplanes S' ! Suc k) ! i)) + 1
     \<and> shape1 (wake_ring_vortex_vertices (wings (airplanes S' ! Suc k) ! i))
         = shape1 (wake_ring_vortices (wings (airplanes S' ! Suc k) ! i)) + 1"
proof -
  define w where "w = wings (airplanes S' ! Suc k) ! i"
  define m where "m = num_spanwise_panels (wings (airplanes S ! 0) ! i)"
  note I = run_steps_wake [OF assms(1), unfolded wake_invariant_def]
  have lay: "layout (airplanes S' ! j) = layout (airplanes S ! j)" for j using I by blast
  have l0: "length (wings (airplanes S ! Suc k)) = length (wings (airplanes S ! 0))"
    and n0: "\<forall>i<length (wings (airplanes S ! 0)).
        num_spanwise_panels (wings (airplanes S ! Suc k) ! i)
          = num_spanwise_panels (wings (airplanes S ! 0) ! i)"
    using layout_nth [OF assms(6)] by simp_all
  have l1: "length (wings (airplanes S' ! Suc k)) = length (wings (airplanes S ! Suc k))"
    and n1: "\<forall>i<length (wings (airplanes S ! Suc k)).
        num_spanwise_panels (wings (airplanes S' ! Suc k) ! i)
          = num_spanwise_panels (wings (airplanes S ! Suc k) ! i)"
    using layout_nth [OF lay [of "Suc k"]] by simp_all
  have i0: "i < length (wings (airplanes S ! 0))" using assms(7) l0 l1 by simp
  have nw: "num_spanwise_panels w = m" using i0 l0 n0 n1 by (simp add: w_def m_def)
  from I assms(2,3) i0 have g: "grid_ok (Suc k) m
      (wake_ring_vortex_vertices (wings (airplanes S ! 1) ! i))
      (wake_ring_vortices (wings (airplanes S ! 0) ! i)) w"
    and i1': "i < length (wings (airplanes S' ! 1))"
    unfolding w_def m_def by (simp_all add: Suc_le_eq)
  have i1: "i < length (wings (airplanes S ! 1))"
    using i1' layout_nth [OF lay [of 1]] by simp
  have R0: "rows (wake_ring_vortices (wings (airplanes S ! 0) ! i)) = []"
    using assms(4) i0 by (simp add: list_all_length shape0_def)
  have V0: "rows (wake_ring_vortex_vertices (wings (airplanes S ! 1) ! i)) = []"
    using assms(5) i1 by (simp add: list_all_length shape0_def)
  have rep: "replicate j x @ [x, x] = replicate (j + 2) x" for j and x :: nat
    by (induction j) simp_all
  from g have sV: "shape1 (wake_ring_vortex_vertices w) = m + 1"
    and rV': "map length (rows (wake_ring_vortex_vertices w))
        = replicate (Suc k - 1) (m + 1)
          @ map length (rows (wake_ring_vortex_vertices (wings (airplanes S ! 1) ! i)))
          @ [m + 1, m + 1]"
    and sR: "shape1 (wake_ring_vortices w) = m"
    and rR': "map length (rows (wake_ring_vortices w))
        = replicate (Suc k) m @ map length (rows (wake_ring_vortices (wings (airplanes S ! 0) ! i)))"
    unfolding grid_ok_def by blast+
  have rV: "map length (rows (wake_ring_vortex_vertices w)) = replicate (k + 2) (m + 1)"
    unfolding rV' V0 using rep [of k "m + 1"] by simp
  have rR: "map length (rows (wake_ring_vortices w)) = replicate (k + 1) m"
    unfolding rR' R0 by simp
  have lV: "shape0 (wake_ring_vortex_vertices w) = k + 2"
    using arg_cong [OF rV, of length] by (simp add: shape0_def)
  have lR: "shape0 (wake_ring_vortices w) = k + 1"
    using arg_cong [OF rR, of length] by (simp add: shape0_def)
  have cV: "rectangular (wake_ring_vortex_vertices w)"
    unfolding rectangular_def list_all_iff sV
  proof
    fix r assume "r \<in> set (rows (wake_ring_vortex_vertices w))"
    then have "length r \<in> set (map length (rows (wake_ring_vortex_vertices w)))" by simp
    then show "length r = m + 1" unfolding rV by auto
  qed
  have cR: "rectangular (wake_ring_vortices w)"
    unfolding rectangular_def list_all_iff sR
  proof
    fix r assume "r \<in> set (rows (wake_ring_vortices w))"
    then have "length r \<in> set (map length (rows (wake_ring_vortices w)))" by simp
    then show "length r = m" unfolding rR by auto
  qed
  show ?thesis
    unfolding w_def [symmetric] using sV sR lV lR cV cR nw by simp
qed

theorem C3_wake_grid_shapes_witness:
  "\<exists>S'. run_steps example_externals 2 example_three_pose_solver = Inr S'
      \<and> shape0 (wake_ring_vortex_vertices (wings (airplanes S' ! 2) ! 0)) = 3
      \<and> shape1 (wake_ring_vortex_vertices (wings (airplanes S' ! 2) ! 0)) = 2
      \<and> rectangular (wake_ring_vortex_vertices (wings (airplanes S' ! 2) ! 0))
      \<and> shape0 (wake_ring_vortices (wings (airplanes S' ! 2) ! 0)) = 2
      \<and> shape1 (wake_ring_vortices (wings (airplanes S' ! 2) ! 0)) = 1
      \<and> rectangular (wake_ring_vortices (wings (airplanes S' ! 2) ! 0))"
proof -
  from example_three_pose_run obtain S' where
    1: "run_steps example_externals 2 example_three_pose_solver = Inr S'"
    and n: "num_spanwise_panels (wings (airplanes S' ! 2) ! 0) = 1"
    and l: "length (wings (airplanes S' ! 2)) = 1"
    by blast
  have 7: "0 < length (wings (airplanes S' ! Suc 1))" using l by (simp add: numeral_2_eq_2)
  have 2: "(1::nat) < 2" by simp
  have 3: "Suc 1 < num_steps example_three_pose_solver"
    by (simp add: example_three_pose_solver_def)
  have 4: "list_all (\<lambda>w. shape0 (wake_ring_vortices w) = 0)
      (wings (airplanes example_three_pose_solver ! 0))"
    by (simp add: example_three_pose_solver_def example_defs example_solver_defs)
  have 5: "list_all (\<lambda>w. shape0 (wake_ring_vortex_vertices w) = 0)
      (wings (airplanes example_three_pose_solver ! 1))"
    by (simp add: example_three_pose_solver_def example_defs example_solver_defs)
  have 6: "layout (airplanes example_three_pose_solver ! Suc 1)
      = layout (airplanes example_three_pose_solver ! 0)"
    by (simp add: example_three_pose_solver_def)
  from C3_wake_grid_shapes [OF 1 2 3 4 5 6 7] n 1 show ?thesis
    by (auto simp: numeral_2_eq_2 numeral_3_eq_3)
qed

text \<open>
  Claim C2 (Kelvin). For a wing of the first pose and a spanwise position of it, the wake
  ring vortex shed at step \<open>m\<close> is, after the wake population of any later step \<open>k\<close>, the
  one at row \<open>k - m\<close> of pose \<open>k + 1\<close>: it is there, and its strength is the one it was
  given when it was shed into row 0 of pose \<open>m + 1\<close>, the strength of the trailing-edge
  panel of pose \<open>m\<close> at that spanwise position as step \<open>m\<close> solved it.
\<close>

theorem C2_wake_strength_frozen:
  assumes "run_steps X n S = Inr S'" and "m \<le> k" and "k < n" and "Suc k < num_steps S"
    and "i < length (wings (airplanes S ! 0))"
    and "c < num_spanwise_panels (wings (airplanes S' ! m) ! i)"
  shows "\<exists>rv rv0.
       rows (wake_ring_vortices (wings (airplanes S' ! Suc k) ! i)) ! (k - m) ! c = Some rv
     \<and> rows (wake_ring_vortices (wings (airplanes S' ! Suc m) ! i)) ! 0 ! c = Some rv0
     \<and> strength rv = strength rv0
     \<and> strength rv0 = trailing_edge_strength (wings (airplanes S' ! m) ! i) c"
proof -
  note I = run_steps_wake [OF assms(1), unfolded wake_invariant_def]
  have K: "\<exists>rv. rows (wake_ring_vortices (wings (airplanes S' ! j) ! i)) ! (j - 1 - m') ! c
                     = Some rv
                 \<and> strength rv = trailing_edge_strength (wings (airplanes S' ! m') ! i) c"
    if "1 \<le> j" "j \<le> n" "j < num_steps S" "m' < j"
      "c < num_spanwise_panels (wings (airplanes S' ! m') ! i)" for j m'
    using I that assms(5) by blast
  from K [of "Suc k" m] assms obtain rv where
    1: "rows (wake_ring_vortices (wings (airplanes S' ! Suc k) ! i)) ! (k - m) ! c = Some rv"
    and 2: "strength rv = trailing_edge_strength (wings (airplanes S' ! m) ! i) c"
    by auto
  from K [of "Suc m" m] assms obtain rv0 where
    3: "rows (wake_ring_vortices (wings (airplanes S' ! Suc m) ! i)) ! 0 ! c = Some rv0"
    and 4: "strength rv0 = trailing_edge_strength (wings (airplanes S' ! m) ! i) c"
    by auto
  show ?thesis using 1 2 3 4 by simp
qed

theorem C2_wake_strength_frozen_witness:
  "\<exists>S' rv rv0. run_steps example_externals 2 example_three_pose_solver = Inr S'
      \<and> rows (wake_ring_vortices (wings (airplanes S' ! 2) ! 0)) ! 1 ! 0 = Some rv
      \<and> rows (wake_ring_vortices (wings (airplanes S' ! 1) ! 0)) ! 0 ! 0 = Some rv0
      \<and> strength rv = Some 0 \<and> strength rv0 = Some 0
      \<and> trailing_edge_strength (wings (airplanes S' ! 1) ! 0) 0 = Some (- 1)"
proof -
  from example_three_pose_run obtain S' where
    1: "run_steps example_externals 2 example_three_pose_solver = Inr S'"
    and t0: "trailing_edge_strength (wings (airplanes S' ! 0) ! 0) 0 = Some 0"
    and t1: "trailing_edge_strength (wings (airplanes S' ! 1) ! 0) 0 = Some (- 1)"
    and n0: "num_spanwise_panels (wings (airplanes S' ! 0) ! 0) = 1"
    by blast
  have 6: "0 < num_spanwise_panels (wings (airplanes S' ! 0) ! 0)" using n0 by simp
  have 2: "(0::nat) \<le> 1" and 3: "(1::nat) < 2" by simp_all
  have 4: "Suc 1 < num_steps example_three_pose_solver"
    by (simp add: example_three_pose_solver_def)
  have 5: "0 < length (wings (airplanes example_three_pose_solver ! 0))"
    by (simp add: example_three_pose_solver_def example_solver_defs)
  from C2_wake_strength_frozen [OF 1 2 3 4 5 6] t0 t1 1 show ?thesis
    by (auto simp: numeral_2_eq_2)
qed

subsection \<open>Solving for the vortex strengths\<close>






subsection \<open>A singular influence matrix\<close>

lemma for_each_abort:
  "for_each xs body s = Inr t \<Longrightarrow> body x t = Inl e \<Longrightarrow> for_each (xs @ x # ys) body s = Inl e"
  by (simp add: for_each_append)

lemma run_steps_abort:
  assumes "run_steps X k S0 = Inr Sk" and "k < n" and "run_step X k Sk = Inl e"
  shows "run_steps X n S0 = Inl e"
proof -
  have "[0..<k + (n - k)] = [0..<k] @ [k..<k + (n - k)]"
    by (rule upt_add_eq_append) simp
  then have "[0..<n] = [0..<k] @ k # [Suc k..<n]"
    using assms(2) by (simp add: upt_conv_Cons)
  then show ?thesis
    using for_each_abort [of "[0..<k]" "run_step X" S0 Sk k e "[Suc k..<n]"] assms(1,3)
    by (simp add: run_steps_def)
qed

lemma run_step_abort:
  assumes p1: "calculate_wing_wing_influences X (Sk\<lparr>current_step := k\<rparr>) = Inr S1"
    and p2: "calculate_freestream_wing_influences X S1 = Inr S2"
    and p3: "calculate_wake_wing_influences X S2 = Inr S"
    and p4: "calculate_vortex_strengths X S = Inl e"
  shows "run_step X k Sk = Inl e"
proof -
  from p1 obtain a where a: "current_airplane (Sk\<lparr>current_step := k\<rparr>) = Inr a"
    by (auto simp: calculate_wing_wing_influences_def err_bind_Inr_iff)
  from calculate_wing_wing_influences_frame [OF p1]
  have f: "operating_points S1 = operating_points (Sk\<lparr>current_step := k\<rparr>)"
    "current_step S1 = current_step (Sk\<lparr>current_step := k\<rparr>)"
    by (simp_all add: same_frame_def)
  from p2 obtain opp1 where "current_operating_point S1 = Inr opp1"
    by (auto simp: calculate_freestream_wing_influences_def current_freestream_velocity_def
        err_bind_Inr_iff)
  then have "current_operating_point (Sk\<lparr>current_step := k\<rparr>) = Inr opp1"
    using f by (simp add: current_operating_point_def)
  then show ?thesis
    using a p1 p2 p3 p4 by (simp add: run_step_def Let_def)
qed

text \<open>
  Claim C4, as stated, fails: with the influence matrix \<open>[[0]]\<close>, for which numpy's solver
  raises LinAlgError, both the unsteady and the steady horseshoe solver end with that
  LinAlgError, not with a GeometryDegenerateError.
\<close>

theorem C4_singular_matrix_counterexample:
  "calculate_vortex_strengths example_externals (example_unsteady_solver 0) = Inl LinAlgError
   \<and> steady_horseshoe_calculate_vortex_strengths example_externals
        example_singular_steady_solver = Inl LinAlgError"
  by (simp add: strength_defs example_unsteady_solver_def example_singular_steady_solver_def
        example_solver_defs example_defs)

text \<open>
  Claim C4, amended. Whenever numpy's solver raises on the assembled system, the method
  ends with that same exception, and in the unsteady solver so do the step and the whole
  run. The methods raise nothing of their own for a singular or near-singular matrix: an
  exception of \<^verbatim>\<open>calculate_vortex_strengths\<close> is that of the array arithmetic of the
  right-hand side, that of the solver on the assembled system, or, after the solver has
  returned, an IndexError (or, in the horseshoe solver, an AttributeError) of the
  scatter. So a matrix that the solver does solve is never reported.
\<close>

theorem C4_solver_error_propagates:
  assumes "run_steps X k S0 = Inr Sk" and "k < num_steps S0"
    and "calculate_wing_wing_influences X (Sk\<lparr>current_step := k\<rparr>) = Inr S1"
    and "calculate_freestream_wing_influences X S1 = Inr S2"
    and "calculate_wake_wing_influences X S2 = Inr S"
    and "right_hand_side (current_wake_wing_influences S)
             (current_freestream_wing_influences S) = Inr b"
    and "linalg_solve X (current_wing_wing_influences S) b = Inl e"
    and "linalg_solve X (aerodynamic_influence_coefficients T)
           (map uminus (freestream_influences T)) = Inl e'"
  shows "calculate_vortex_strengths X S = Inl e
     \<and> run_step X k Sk = Inl e
     \<and> run X S0 = Inl e
     \<and> steady_horseshoe_calculate_vortex_strengths X T = Inl e'
     \<and> steady_ring_calculate_vortex_strengths X T = Inl e'
     \<and> (\<forall>U d. calculate_vortex_strengths X U = Inl d \<longrightarrow>
           right_hand_side (current_wake_wing_influences U)
             (current_freestream_wing_influences U) = Inl d
         \<or> (\<exists>c. right_hand_side (current_wake_wing_influences U)
                   (current_freestream_wing_influences U) = Inr c
                \<and> linalg_solve X (current_wing_wing_influences U) c = Inl d)
         \<or> (\<exists>c G. right_hand_side (current_wake_wing_influences U)
                     (current_freestream_wing_influences U) = Inr c
                \<and> linalg_solve X (current_wing_wing_influences U) c = Inr G
                \<and> d = IndexError))
     \<and> (\<forall>U d. steady_horseshoe_calculate_vortex_strengths X U = Inl d \<longrightarrow>
           linalg_solve X (aerodynamic_influence_coefficients U)
             (map uminus (freestream_influences U)) = Inl d
         \<or> (\<exists>G. linalg_solve X (aerodynamic_influence_coefficients U)
                   (map uminus (freestream_influences U)) = Inr G
                \<and> (d = IndexError \<or> d = AttributeError)))
     \<and> (\<forall>U d. steady_ring_calculate_vortex_strengths X U = Inl d \<longrightarrow>
           linalg_solve X (aerodynamic_influence_coefficients U)
             (map uminus (freestream_influences U)) = Inl d
         \<or> (\<exists>G. linalg_solve X (aerodynamic_influence_coefficients U)
                   (map uminus (freestream_influences U)) = Inr G
                \<and> d = IndexError))"
proof -
  have 1: "calculate_vortex_strengths X S = Inl e"
    using assms(6,7) by (simp add: calculate_vortex_strengths_def)
  have 2: "run_step X k Sk = Inl e"
    by (rule run_step_abort [OF assms(3,4,5) 1])
  have 3: "run X S0 = Inl e"
    using run_steps_abort [OF assms(1,2) 2] by (simp add: run_def)
  have 4: "steady_horseshoe_calculate_vortex_strengths X T = Inl e'"
    using assms(8) by (simp add: steady_horseshoe_calculate_vortex_strengths_def)
  have 5: "steady_ring_calculate_vortex_strengths X T = Inl e'"
    using assms(8) by (simp add: steady_ring_calculate_vortex_strengths_def)
  have 6: "right_hand_side (current_wake_wing_influences U)
             (current_freestream_wing_influences U) = Inl d
         \<or> (\<exists>c. right_hand_side (current_wake_wing_influences U)
                   (current_freestream_wing_influences U) = Inr c
                \<and> linalg_solve X (current_wing_wing_influences U) c = Inl d)
         \<or> (\<exists>c G. right_hand_side (current_wake_wing_influences U)
                     (current_freestream_wing_influences U) = Inr c
                \<and> linalg_solve X (current_wing_wing_influences U) c = Inr G
                \<and> d = IndexError)"
    if "calculate_vortex_strengths X U = Inl d" for U d
    using that
    by (auto simp: calculate_vortex_strengths_def err_bind_def current_airplane_def get1_def
        split: sum.splits if_splits
        dest!: update_airplane_strengths_Inl ring_panel_update_strength_Inl)
  have 7: "linalg_solve X (aerodynamic_influence_coefficients U)
             (map uminus (freestream_influences U)) = Inl d
         \<or> (\<exists>G. linalg_solve X (aerodynamic_influence_coefficients U)
                   (map uminus (freestream_influences U)) = Inr G
                \<and> (d = IndexError \<or> d = AttributeError))"
    if "steady_horseshoe_calculate_vortex_strengths X U = Inl d" for U d
    using that
    by (auto simp: steady_horseshoe_calculate_vortex_strengths_def err_bind_def
        split: sum.splits
        dest!: update_airplane_strengths_Inl horseshoe_panel_update_strength_Inl)
  have 8: "linalg_solve X (aerodynamic_influence_coefficients U)
             (map uminus (freestream_influences U)) = Inl d
         \<or> (\<exists>G. linalg_solve X (aerodynamic_influence_coefficients U)
                   (map uminus (freestream_influences U)) = Inr G
                \<and> d = IndexError)"
    if "steady_ring_calculate_vortex_strengths X U = Inl d" for U d
    using that
    by (auto simp: steady_ring_calculate_vortex_strengths_def err_bind_def
        split: sum.splits
        dest!: update_airplane_strengths_Inl ring_panel_update_strength_Inl)
  show ?thesis using 1 2 3 4 5 6 7 8 by blast
qed

theorem C4_solver_error_propagates_witness:
  "run (example_externals\<lparr>ring_normalized_induced_velocity := (\<lambda>rv q. zeros3)\<rparr>)
       (example_unsteady_solver 5) = Inl LinAlgError
   \<and> run_step (example_externals\<lparr>ring_normalized_induced_velocity := (\<lambda>rv q. zeros3)\<rparr>) 0
       (example_unsteady_solver 5) = Inl LinAlgError
   \<and> steady_horseshoe_calculate_vortex_strengths example_externals
        example_singular_steady_solver = Inl LinAlgError
   \<and> steady_ring_calculate_vortex_strengths example_externals
        example_singular_steady_solver = Inl LinAlgError"
proof -
  let ?X = "example_externals\<lparr>ring_normalized_induced_velocity := (\<lambda>rv q. zeros3)\<rparr>"
  let ?S0 = "example_unsteady_solver 5"
  let ?S1 = "?S0\<lparr>current_wing_wing_influences := \<lparr>shape1 = 1, rows = [[0]]\<rparr>\<rparr>"
  let ?S2 = "?S1\<lparr>current_freestream_wing_influences := [0]\<rparr>"
  have 1: "run_steps ?X 0 ?S0 = Inr ?S0" by (simp add: run_steps_def)
  have 2: "0 < num_steps ?S0" by (simp add: example_unsteady_solver_def)
  have 3: "calculate_wing_wing_influences ?X (?S0\<lparr>current_step := 0\<rparr>) = Inr ?S1"
    by (simp add: example_unsteady_solver_def calculate_wing_wing_influences_def
        ndenumerate_ravel_def calculate_normalized_induced_velocity_def current_airplane_def
        set2_def example_solver_defs example_defs velocity_defs)
  have 4: "calculate_freestream_wing_influences ?X ?S1 = Inr ?S2"
    by (simp add: example_unsteady_solver_def influence_defs example_solver_defs example_defs
        velocity_defs)
  have 5: "calculate_wake_wing_influences ?X ?S2 = Inr ?S2"
    by (simp add: example_unsteady_solver_def influence_defs example_solver_defs example_defs
        velocity_defs)
  have 6: "right_hand_side (current_wake_wing_influences ?S2)
             (current_freestream_wing_influences ?S2) = Inr [0]"
    by (simp add: right_hand_side_def example_unsteady_solver_def)
  have 7: "linalg_solve ?X (current_wing_wing_influences ?S2) [0] = Inl LinAlgError"
    by (simp add: example_externals_def example_solve_def example_unsteady_solver_def)
  have 8: "linalg_solve ?X
        (aerodynamic_influence_coefficients example_singular_steady_solver)
        (map uminus (freestream_influences example_singular_steady_solver)) = Inl LinAlgError"
    by (simp add: example_externals_def example_solve_def example_singular_steady_solver_def
          example_steady_solver_def)
  have 9: "steady_horseshoe_calculate_vortex_strengths example_externals
        example_singular_steady_solver = Inl LinAlgError"
    by (simp add: strength_defs example_singular_steady_solver_def example_solver_defs
        example_defs)
  have 10: "steady_ring_calculate_vortex_strengths example_externals
        example_singular_steady_solver = Inl LinAlgError"
    by (simp add: strength_defs example_singular_steady_solver_def example_solver_defs
        example_defs)
  show ?thesis
    using 9 10 C4_solver_error_propagates [OF 1 2 3 4 5 6 7 8] by simp
qed

end
